theory Spec2Isabelle
  imports Main
begin

section \<open>JavaScript values\<close>

text \<open>
  The module \<^verbatim>\<open>fetchData.js\<close> reads the JSON answers of four endpoints (the ICDC
  backend, the IDC listing, the TCIA listing, the TCIA series of a collection) and
  assembles a list of mappings. The model is typed, after the shapes the module expects:
  \<^item> a JSON object of an answer is a record, a JSON array a list;
  \<^item> a property that the source guards, filters on or assigns
    (\<^verbatim>\<open>obj["collection_id"]\<close>, \<^verbatim>\<open>obj.Collection\<close>, \<^verbatim>\<open>description\<close>,
    \<^verbatim>\<open>data.data?.studiesByProgram\<close>, \<^verbatim>\<open>numberOfCRDCNodes\<close>) is an \<open>option\<close>, where
    \<open>None\<close> is JavaScript's \<^verbatim>\<open>undefined\<close> (the property is absent); when present it
    has the type the module expects (a string, a number, a list of studies);
  \<^item> a study has a designation, and a series has its four string properties;
  \<^item> an endpoint gives the same answer each time it is asked within one run.
  Strings are \<open>string\<close>.

  An exception is a value of \<open>js_error\<close>; a function that can throw returns
  \<open>js_error + 'a\<close> with \<open>Inl\<close> the thrown value.
\<close>

datatype js_error = TypeError | FetchError | SyntaxError | Error string

text \<open>
  A JavaScript number is an IEEE double. The module computes with integers only
  (results of \<^verbatim>\<open>parseInt\<close>, their sums, the constant 84), so a number of the model is
  \<^verbatim>\<open>NaN\<close>, an infinity, or \<open>Num n\<close> for an integer \<open>n\<close> that is a double. Every
  integer of magnitude up to \<open>2 ^ 53\<close> is a double; a larger one is rounded to the nearest
  integer with a 53 bit significand, a tie going to the even significand, and to an
  infinity from \<open>2 ^ 1024 - 2 ^ 970\<close> on. (The zero of the model stands for both zeros of
  the source; a sum that starts at \<^verbatim>\<open>0\<close> is never the negative one.)
\<close>

datatype jsnum = NaN | PosInfinity | NegInfinity | Num int

fun bit_length :: "nat \<Rightarrow> nat" where
  "bit_length n = (if n = 0 then 0 else Suc (bit_length (n div 2)))"

declare bit_length.simps [simp del]

definition round_to_double :: "int \<Rightarrow> jsnum" where
  "round_to_double n =
     (if \<bar>n\<bar> \<le> 2 ^ 53 then Num n
      else
        let a = nat \<bar>n\<bar>;
            shift = bit_length a - 53;
            q = a div 2 ^ shift;
            r = a mod 2 ^ shift;
            q' = (if 2 ^ shift < 2 * r \<or> (2 * r = 2 ^ shift \<and> odd q) then q + 1 else q);
            m = q' * 2 ^ shift
        in if 2 ^ 1024 \<le> m then (if n < 0 then NegInfinity else PosInfinity)
           else Num (if n < 0 then - int m else int m))"

text \<open>
  \<^verbatim>\<open>x + y\<close> on numbers: the exact sum, rounded; an infinity absorbs a finite number, and
  the sum of the two infinities is \<^verbatim>\<open>NaN\<close>, as is a sum with \<^verbatim>\<open>NaN\<close>.
\<close>

fun js_add :: "jsnum \<Rightarrow> jsnum \<Rightarrow> jsnum" where
  "js_add (Num a) (Num b) = round_to_double (a + b)"
| "js_add NaN y = NaN"
| "js_add x NaN = NaN"
| "js_add PosInfinity NegInfinity = NaN"
| "js_add NegInfinity PosInfinity = NaN"
| "js_add PosInfinity y = PosInfinity"
| "js_add x PosInfinity = PosInfinity"
| "js_add NegInfinity y = NegInfinity"
| "js_add x NegInfinity = NegInfinity"

text \<open>
  The string a value becomes inside a template literal and as a property key:
  \<^verbatim>\<open>`${undefined}`\<close> is \<^verbatim>\<open>"undefined"\<close>.
\<close>

fun to_string :: "string option \<Rightarrow> string" where
  "to_string None = ''undefined''"
| "to_string (Some s) = s"

subsection \<open>String.prototype.includes\<close>

fun starts_with :: "string \<Rightarrow> string \<Rightarrow> bool" where
  "starts_with s [] = True"
| "starts_with [] (k # ks) = False"
| "starts_with (c # cs) (k # ks) = (c = k \<and> starts_with cs ks)"

fun str_includes :: "string \<Rightarrow> string \<Rightarrow> bool" where
  "str_includes [] key = (key = [])"
| "str_includes (c # cs) key = (starts_with (c # cs) key \<or> str_includes cs key)"

subsection \<open>parseInt\<close>

text \<open>
  \<^verbatim>\<open>parseInt(string)\<close> with no radix, as ECMAScript defines it: leading white space is
  dropped, then a sign, then the prefix \<^verbatim>\<open>0x\<close> or \<^verbatim>\<open>0X\<close> (which makes the radix 16),
  and the longest run of digits of the radix is read; with no digit the result is
  \<^verbatim>\<open>NaN\<close>, otherwise it is the number for the signed integer the digits denote, that
  is, the integer rounded to a double. What follows the digits is ignored. (For more than
  20 significant decimal digits ECMAScript lets an implementation read the digits after
  the 20th as zeros; the model reads them as they are.) The characters of a \<open>string\<close>
  are the code units below 256, so of the white space characters those are listed.
\<close>

definition is_StrWhiteSpaceChar :: "char \<Rightarrow> bool" where
  "is_StrWhiteSpaceChar c =
     (c \<in> set [CHR 0x09, CHR 0x0A, CHR 0x0B, CHR 0x0C, CHR 0x0D, CHR 0x20, CHR 0xA0])"

definition digit_value :: "char \<Rightarrow> nat option" where
  "digit_value =
     map_of [(CHR ''0'', 0), (CHR ''1'', 1), (CHR ''2'', 2), (CHR ''3'', 3), (CHR ''4'', 4),
             (CHR ''5'', 5), (CHR ''6'', 6), (CHR ''7'', 7), (CHR ''8'', 8), (CHR ''9'', 9),
             (CHR ''a'', 10), (CHR ''b'', 11), (CHR ''c'', 12), (CHR ''d'', 13),
             (CHR ''e'', 14), (CHR ''f'', 15),
             (CHR ''A'', 10), (CHR ''B'', 11), (CHR ''C'', 12), (CHR ''D'', 13),
             (CHR ''E'', 14), (CHR ''F'', 15)]"

definition is_radix_digit :: "nat \<Rightarrow> char \<Rightarrow> bool" where
  "is_radix_digit R c = (case digit_value c of None \<Rightarrow> False | Some d \<Rightarrow> d < R)"

definition digits_value :: "nat \<Rightarrow> string \<Rightarrow> nat" where
  "digits_value R Z =
     foldl (\<lambda>n c. case digit_value c of None \<Rightarrow> n | Some d \<Rightarrow> n * R + d) 0 Z"

definition parseInt :: "string \<Rightarrow> jsnum" where
  "parseInt string =
     (let S = dropWhile is_StrWhiteSpaceChar string;
          sign = (if starts_with S ''-'' then - 1 else 1);
          S1 = (if starts_with S ''+'' \<or> starts_with S ''-'' then tl S else S);
          hex = (starts_with S1 ''0x'' \<or> starts_with S1 ''0X'');
          R = (if hex then 16 else 10);
          S2 = (if hex then drop 2 S1 else S1);
          Z = takeWhile (is_radix_digit R) S2
      in if Z = [] then NaN else round_to_double (sign * int (digits_value R Z)))"

subsection \<open>Set\<close>

text \<open>
  \<^verbatim>\<open>[...new Set(xs)]\<close>: the constructor adds the elements of \<open>xs\<close> one by one,
  \<^verbatim>\<open>add\<close> appends a value that is not yet in the set, and the spread lists the set in
  insertion order.
\<close>

definition set_add :: "'a list \<Rightarrow> 'a \<Rightarrow> 'a list" where
  "set_add s v = (if v \<in> set s then s else s @ [v])"

definition new_Set :: "'a list \<Rightarrow> 'a list" where
  "new_Set iterable = foldl set_add [] iterable"

section \<open>The data of the module\<close>

text \<open>A study of the answer of the ICDC backend (the GraphQL query of \<^verbatim>\<open>getIcdcStudyData\<close>).\<close>

record study =
  clinical_study_designation :: string
  numberOfImageCollections :: "int option"
  numberOfCRDCNodes :: "int option"

text \<open>One series of the answer of the TCIA series endpoint.\<close>

record series =
  ImageCount :: string
  PatientID :: string
  Modality :: string
  BodyPartExamined :: string

text \<open>The object \<^verbatim>\<open>getTciaCollectionMetadata\<close> returns.\<close>

record tcia_metadata =
  Collection :: "string option"
  Aggregate_PatientID :: nat
  Aggregate_Modality :: "string list"
  Aggregate_BodyPartExamined :: "string list"
  Aggregate_ImageCount :: jsnum

section \<open>getTciaCollectionMetadata\<close>

text \<open>
  \<^verbatim>\<open>tciaCollectionsData\<close> is the object \<^verbatim>\<open>getTciaCollectionsData\<close> fills: a dictionary
  from collection name to the list of series (the names are those of the TCIA listing
  that contain \<^verbatim>\<open>ICDC-\<close>, none of which is a property every object inherits). A name
  that is not a key reads as \<^verbatim>\<open>undefined\<close>, and \<^verbatim>\<open>undefined.reduce\<close> throws a
  TypeError.
\<close>

definition getTciaCollectionMetadata ::
  "string option \<Rightarrow> (string \<rightharpoonup> series list) \<Rightarrow> study \<Rightarrow> js_error + tcia_metadata" where
  "getTciaCollectionMetadata collectionId tciaCollectionsData icdcStudy =
     (case tciaCollectionsData (to_string collectionId) of
        None \<Rightarrow> Inl TypeError
      | Some tciaCollectionMetadata \<Rightarrow>
          let totalImages =
                foldl (\<lambda>tot obj. js_add tot (parseInt (ImageCount obj))) (Num 0)
                  tciaCollectionMetadata;
              totalPatients = length (new_Set (map PatientID tciaCollectionMetadata));
              uniqueModalities = new_Set (map Modality tciaCollectionMetadata);
              uniqueBodypartsExamined = new_Set (map BodyPartExamined tciaCollectionMetadata)
          in if clinical_study_designation icdcStudy = ''GLIOMA01''
             then Inr \<lparr>Collection = collectionId,
                       Aggregate_PatientID = totalPatients,
                       Aggregate_Modality = uniqueModalities @ [''Histopathology''],
                       Aggregate_BodyPartExamined = uniqueBodypartsExamined,
                       Aggregate_ImageCount = js_add totalImages (Num 84)\<rparr>
             else Inr \<lparr>Collection = collectionId,
                       Aggregate_PatientID = totalPatients,
                       Aggregate_Modality = uniqueModalities,
                       Aggregate_BodyPartExamined = uniqueBodypartsExamined,
                       Aggregate_ImageCount = totalImages\<rparr>)"

section \<open>The imports of the module\<close>

text \<open>
  \<^verbatim>\<open>fetchData.js\<close> imports string constants (\<^verbatim>\<open>dataRetrievalConstants\<close>,
  \<^verbatim>\<open>errorName\<close>) and two library functions (\<^verbatim>\<open>search\<close> of fast-fuzzy,
  \<^verbatim>\<open>htmlToText\<close> of html-to-text) whose code is not part of the repository's sources.
  They are parameters of the model. A library function receives what the source passes
  to it (a value that may be \<^verbatim>\<open>undefined\<close>) and may throw.
\<close>

record env =
  IDC_COLLECTION_BASE_URL :: string
  TCIA_COLLECTION_BASE_URL :: string
  BENTO_BACKEND_NOT_CONNECTED :: string
  search :: "string \<Rightarrow> string option list \<Rightarrow> js_error + string option list"
  htmlToText :: "string option \<Rightarrow> js_error + string"

section \<open>The services\<close>

text \<open>
  What \<^verbatim>\<open>await fetch(...)\<close> followed by \<^verbatim>\<open>await response.json()\<close> yields for each
  endpoint: the error thrown (transport or parse), or the parsed answer. An answer of the
  series endpoint depends on the collection named in the URL.

  The body of the backend's answer may parse to \<^verbatim>\<open>null\<close>, on which the read
  \<^verbatim>\<open>data.data\<close> throws: the parsed body is an \<open>option\<close>, \<open>None\<close> for \<^verbatim>\<open>null\<close>.
  (A body that is a number, a string, a boolean or an array reads like an object without
  \<^verbatim>\<open>data\<close>.) The property \<^verbatim>\<open>data\<close> is guarded by \<^verbatim>\<open>?.\<close>, so \<open>None\<close> for it
  is absent or \<^verbatim>\<open>null\<close>. A listing of IDC that parses to \<^verbatim>\<open>null\<close> or has no
  \<^verbatim>\<open>collections\<close> gives the same TypeError, so both are \<open>collections = None\<close>.
\<close>

record idc_collection =
  collection_id :: "string option"
  description :: "string option"

record idc_response =
  collections :: "idc_collection list option"

text \<open>
  An entry of the TCIA listing, \<^verbatim>\<open>{ Collection: ... }\<close>. The field is named
  \<open>listing_Collection\<close> here since \<open>Collection\<close> is the field of the metadata record.
\<close>

record tcia_collection =
  listing_Collection :: "string option"

record graphql_data =
  studiesByProgram :: "study list option"

record graphql_response =
  response_data :: "graphql_data option"

record world =
  bento_backend :: "js_error + graphql_response option"
  idc_collections_endpoint :: "js_error + idc_response"
  tcia_collections_endpoint :: "js_error + tcia_collection list"
  tcia_series_endpoint :: "string \<Rightarrow> js_error + series list"

section \<open>utils/arrayUtils.js\<close>

text \<open>
  \<^verbatim>\<open>array.filter((obj) => obj[property].includes(key))\<close>. The argument \<open>property\<close> is
  the read \<^verbatim>\<open>obj[property]\<close>. On an object without the property the read is
  \<^verbatim>\<open>undefined\<close> and the call of \<^verbatim>\<open>includes\<close> throws a TypeError, which ends the
  whole \<^verbatim>\<open>filter\<close>.
\<close>

fun filterObjectArray :: "'a list \<Rightarrow> ('a \<Rightarrow> string option) \<Rightarrow> string \<Rightarrow> js_error + 'a list" where
  "filterObjectArray [] property key = Inr []"
| "filterObjectArray (obj # array) property key =
     (case property obj of
        None \<Rightarrow> Inl TypeError
      | Some v \<Rightarrow>
          (case filterObjectArray array property key of
             Inl error \<Rightarrow> Inl error
           | Inr rest \<Rightarrow> Inr (if str_includes v key then obj # rest else rest)))"

section \<open>The fetchers\<close>

text \<open>
  A fetcher returns what it wrote with \<^verbatim>\<open>console.error\<close> (a list of errors, in order)
  and its result. The body of each \<^verbatim>\<open>try\<close> is the inner \<open>case\<close>, the \<^verbatim>\<open>catch\<close>
  the outer one.
\<close>

definition getIdcCollections :: "world \<Rightarrow> js_error list \<times> idc_collection list" where
  "getIdcCollections w =
     (case (case idc_collections_endpoint w of
              Inl error \<Rightarrow> Inl error
            | Inr data \<Rightarrow>
                (case collections data of
                   None \<Rightarrow> Inl TypeError
                 | Some array \<Rightarrow> filterObjectArray array collection_id ''icdc_''))
      of Inl error \<Rightarrow> ([error], [])
       | Inr filteredCollections \<Rightarrow> ([], filteredCollections))"

definition getTciaCollections :: "world \<Rightarrow> js_error list \<times> string option list" where
  "getTciaCollections w =
     (case (case tcia_collections_endpoint w of
              Inl error \<Rightarrow> Inl error
            | Inr data \<Rightarrow>
                (case filterObjectArray data listing_Collection ''ICDC-'' of
                   Inl error \<Rightarrow> Inl error
                 | Inr filtered \<Rightarrow> Inr (map listing_Collection filtered)))
      of Inl error \<Rightarrow> ([error], [])
       | Inr collectionIds \<Rightarrow> ([], collectionIds))"

definition getTciaCollectionData :: "world \<Rightarrow> string option \<Rightarrow> js_error list \<times> series list" where
  "getTciaCollectionData w collection_id' =
     (case tcia_series_endpoint w (to_string collection_id') of
        Inl error \<Rightarrow> ([error], [])
      | Inr data \<Rightarrow> ([], data))"

text \<open>
  \<^verbatim>\<open>getIcdcStudyData\<close>: whatever is thrown inside the \<^verbatim>\<open>try\<close> (by the request, by
  the parsing, or by the read \<^verbatim>\<open>data.data\<close> on a body that is \<^verbatim>\<open>null\<close>) is logged,
  and \<^verbatim>\<open>new Error(errorName.BENTO_BACKEND_NOT_CONNECTED)\<close> is thrown. Otherwise the
  function returns \<^verbatim>\<open>data.data?.studiesByProgram\<close>, which is \<^verbatim>\<open>undefined\<close> when either
  property is absent.
\<close>

definition getIcdcStudyData :: "env \<Rightarrow> world \<Rightarrow> js_error list \<times> (js_error + study list option)" where
  "getIcdcStudyData e w =
     (case (case bento_backend w of
              Inl error \<Rightarrow> Inl error
            | Inr None \<Rightarrow> Inl TypeError
            | Inr (Some response) \<Rightarrow>
                Inr (case response_data response of None \<Rightarrow> None | Some d \<Rightarrow> studiesByProgram d))
      of Inl error \<Rightarrow> ([error], Inl (Error (BENTO_BACKEND_NOT_CONNECTED e)))
       | Inr studyData \<Rightarrow> ([], Inr studyData))"

text \<open>
  \<^verbatim>\<open>getTciaCollectionsData\<close>: the loop over the names, one request after the other; each
  result is stored under the name.
\<close>

fun getTciaCollectionsData_loop ::
  "world \<Rightarrow> string option list \<Rightarrow> (string \<rightharpoonup> series list) \<Rightarrow> js_error list \<times> (string \<rightharpoonup> series list)" where
  "getTciaCollectionsData_loop w [] tciaCollectionsData = ([], tciaCollectionsData)"
| "getTciaCollectionsData_loop w (collection # rest) tciaCollectionsData =
     (case getTciaCollectionData w collection of
        (log1, tciaCollectionData) \<Rightarrow>
          (case getTciaCollectionsData_loop w rest
                  (tciaCollectionsData(to_string collection \<mapsto> tciaCollectionData)) of
             (log2, result) \<Rightarrow> (log1 @ log2, result)))"

definition getTciaCollectionsData ::
  "world \<Rightarrow> string option list \<Rightarrow> js_error list \<times> (string \<rightharpoonup> series list)" where
  "getTciaCollectionsData w tciaCollections = getTciaCollectionsData_loop w tciaCollections Map.empty"

section \<open>getIdcCollectionMetadata\<close>

subsection \<open>The three replacements for GLIOMA01\<close>

text \<open>
  \<^verbatim>\<open>.replace(/\n\n|\s*\[.*?\]\s*/g, " ")\<close>. At a position the first alternative is tried
  first. The second one matches a maximal run of white space (a shorter run is followed by
  white space, not by the bracket), the opening bracket, the characters up to the first
  closing bracket (the dot matches no line terminator), and the white space that follows.
\<close>

fun lazy_until_bracket :: "string \<Rightarrow> string option" where
  "lazy_until_bracket [] = None"
| "lazy_until_bracket (c # cs) =
     (if c = CHR '']'' then Some cs
      else if c = CHR 0x0A \<or> c = CHR 0x0D then None
      else lazy_until_bracket cs)"

definition match_annotation :: "string \<Rightarrow> string option" where
  "match_annotation s =
     (case dropWhile is_StrWhiteSpaceChar s of
        [] \<Rightarrow> None
      | c # t \<Rightarrow>
          if c = CHR ''[''
          then (case lazy_until_bracket t of
                  None \<Rightarrow> None
                | Some r \<Rightarrow> Some (dropWhile is_StrWhiteSpaceChar r))
          else None)"

lemma lazy_until_bracket_length: "lazy_until_bracket s = Some r \<Longrightarrow> length r < length s"
  by (induction s) (auto split: if_splits)

lemma match_annotation_length: "match_annotation s = Some r \<Longrightarrow> length r < length s"
proof -
  assume m: "match_annotation s = Some r"
  then obtain t r' where d: "dropWhile is_StrWhiteSpaceChar s = CHR ''['' # t"
    and l: "lazy_until_bracket t = Some r'" and r: "r = dropWhile is_StrWhiteSpaceChar r'"
    by (auto simp: match_annotation_def split: list.splits if_splits option.splits)
  have "length r \<le> length r'" using r by (simp add: length_dropWhile_le)
  moreover have "length r' < length t" using l by (rule lazy_until_bracket_length)
  moreover have "length (CHR ''['' # t) \<le> length s"
    using length_dropWhile_le [of is_StrWhiteSpaceChar s] d by simp
  ultimately show ?thesis by simp
qed

function replace_annotations :: "string \<Rightarrow> string" where
  "replace_annotations [] = []"
| "replace_annotations (c # cs) =
     (if starts_with (c # cs) [CHR 0x0A, CHR 0x0A] then CHR '' '' # replace_annotations (tl cs)
      else (case match_annotation (c # cs) of
              Some r \<Rightarrow> CHR '' '' # replace_annotations r
            | None \<Rightarrow> c # replace_annotations cs))"
  by pat_completeness auto
termination
  by (relation "measure length") (auto dest: match_annotation_length intro: le_imp_less_Suc)

text \<open>\<^verbatim>\<open>.replace(/ \./g, ".")\<close>\<close>

fun replace_space_dot :: "string \<Rightarrow> string" where
  "replace_space_dot (a # b # cs) =
     (if a = CHR '' '' \<and> b = CHR ''.'' then CHR ''.'' # replace_space_dot cs
      else a # replace_space_dot (b # cs))"
| "replace_space_dot cs = cs"

text \<open>\<^verbatim>\<open>.replace(pattern, "")\<close> with a string pattern: the first occurrence is removed.\<close>

fun remove_first :: "string \<Rightarrow> string \<Rightarrow> string" where
  "remove_first pattern [] = []"
| "remove_first pattern (c # cs) =
     (if starts_with (c # cs) pattern then drop (length pattern) (c # cs)
      else c # remove_first pattern cs)"

definition glioma_description :: "string \<Rightarrow> string" where
  "glioma_description cleanedDescText =
     remove_first '' ICDC-Glioma'' (replace_space_dot (replace_annotations cleanedDescText))"

subsection \<open>The function\<close>

text \<open>
  \<^verbatim>\<open>idcCollections.find(...)\<close> returns the first object with the given id, or
  \<^verbatim>\<open>undefined\<close>; reading \<^verbatim>\<open>["description"]\<close> of \<^verbatim>\<open>undefined\<close> throws a TypeError.
  The object found is an element of the array \<^verbatim>\<open>idcCollections\<close>, and the assignment to
  its \<^verbatim>\<open>description\<close> changes that element: the model returns the position of the
  object and the array after the assignment. A caller that keeps the returned object keeps
  a reference into the array, which the position stands for.
\<close>

fun find_first :: "('a \<Rightarrow> bool) \<Rightarrow> 'a list \<Rightarrow> (nat \<times> 'a) option" where
  "find_first P [] = None"
| "find_first P (x # xs) =
     (if P x then Some (0, x)
      else (case find_first P xs of None \<Rightarrow> None | Some (i, y) \<Rightarrow> Some (Suc i, y)))"

definition getIdcCollectionMetadata ::
  "env \<Rightarrow> string option \<Rightarrow> idc_collection list \<Rightarrow> study \<Rightarrow> js_error + (nat \<times> idc_collection list)" where
  "getIdcCollectionMetadata e collectionId idcCollections icdcStudy =
     (case find_first (\<lambda>obj. collection_id obj = collectionId) idcCollections of
        None \<Rightarrow> Inl TypeError
      | Some (i, idcCollectionMetadata) \<Rightarrow>
          (case htmlToText e (description idcCollectionMetadata) of
             Inl error \<Rightarrow> Inl error
           | Inr cleanedDescText \<Rightarrow>
               if clinical_study_designation icdcStudy = ''GLIOMA01''
               then Inr (i, idcCollections[i := idcCollectionMetadata
                              \<lparr>description := Some (glioma_description cleanedDescText)\<rparr>])
               else Inr (i, idcCollections[i := idcCollectionMetadata
                              \<lparr>description := Some cleanedDescText\<rparr>])))"

section \<open>mapMatchesToStudy\<close>

datatype repository = IDC | TCIA

text \<open>
  The metadata of an entry: for IDC the object of \<^verbatim>\<open>idcCollections\<close> that
  \<^verbatim>\<open>getIdcCollectionMetadata\<close> returned (its position in the array), for TCIA the object
  built by \<^verbatim>\<open>getTciaCollectionMetadata\<close>.
\<close>

datatype metadata = IDCMetadata nat | TCIAMetadata tcia_metadata

record collection_url =
  repository :: repository
  url :: string
  metadata :: metadata

fun idc_loop ::
  "env \<Rightarrow> study \<Rightarrow> string option list \<Rightarrow> idc_collection list \<Rightarrow> collection_url list
     \<Rightarrow> js_error + (collection_url list \<times> idc_collection list)" where
  "idc_loop e icdcStudy [] idcCollections collectionUrls = Inr (collectionUrls, idcCollections)"
| "idc_loop e icdcStudy (match # rest) idcCollections collectionUrls =
     (case getIdcCollectionMetadata e match idcCollections icdcStudy of
        Inl error \<Rightarrow> Inl error
      | Inr (idcCollectionMetadata, idcCollections') \<Rightarrow>
          idc_loop e icdcStudy rest idcCollections'
            (collectionUrls @
               [\<lparr>repository = IDC,
                 url = IDC_COLLECTION_BASE_URL e @ to_string match,
                 metadata = IDCMetadata idcCollectionMetadata\<rparr>]))"

text \<open>
  \<^verbatim>\<open>tciaCollectionsData[name]?.length > 0\<close> is false for a name that is not a key and
  for an empty list.
\<close>

definition has_series :: "(string \<rightharpoonup> series list) \<Rightarrow> string option \<Rightarrow> bool" where
  "has_series tciaCollectionsData match =
     (case tciaCollectionsData (to_string match) of None \<Rightarrow> False | Some l \<Rightarrow> 0 < length l)"

fun tcia_loop ::
  "env \<Rightarrow> study \<Rightarrow> (string \<rightharpoonup> series list) \<Rightarrow> string option list \<Rightarrow> collection_url list
     \<Rightarrow> js_error + collection_url list" where
  "tcia_loop e icdcStudy tciaCollectionsData [] collectionUrls = Inr collectionUrls"
| "tcia_loop e icdcStudy tciaCollectionsData (match # rest) collectionUrls =
     (if has_series tciaCollectionsData match
      then (case getTciaCollectionMetadata match tciaCollectionsData icdcStudy of
              Inl error \<Rightarrow> Inl error
            | Inr tciaCollectionMetadata \<Rightarrow>
                tcia_loop e icdcStudy tciaCollectionsData rest
                  (collectionUrls @
                     [\<lparr>repository = TCIA,
                       url = TCIA_COLLECTION_BASE_URL e @ to_string match,
                       metadata = TCIAMetadata tciaCollectionMetadata\<rparr>]))
      else tcia_loop e icdcStudy tciaCollectionsData rest collectionUrls)"

definition mapMatchesToStudy ::
  "env \<Rightarrow> study \<Rightarrow> idc_collection list \<Rightarrow> string option list \<Rightarrow> (string \<rightharpoonup> series list)
     \<Rightarrow> js_error + (collection_url list \<times> idc_collection list)" where
  "mapMatchesToStudy e icdcStudy idcCollections tciaCollections tciaCollectionsData =
     (case search e (clinical_study_designation icdcStudy) (map collection_id idcCollections) of
        Inl error \<Rightarrow> Inl error
      | Inr idcMatches \<Rightarrow>
     (case search e (clinical_study_designation icdcStudy) tciaCollections of
        Inl error \<Rightarrow> Inl error
      | Inr tciaMatches \<Rightarrow>
     (case (if idcMatches \<noteq> [] then idc_loop e icdcStudy idcMatches idcCollections []
            else Inr ([], idcCollections)) of
        Inl error \<Rightarrow> Inl error
      | Inr (collectionUrls, idcCollections') \<Rightarrow>
     (case (if tciaMatches \<noteq> []
            then tcia_loop e icdcStudy tciaCollectionsData tciaMatches collectionUrls
            else Inr collectionUrls) of
        Inl error \<Rightarrow> Inl error
      | Inr collectionUrls' \<Rightarrow> Inr (collectionUrls', idcCollections')))))"

section \<open>collectMappings\<close>

record mapping =
  CRDCLinks :: "collection_url list"
  mapping_numberOfCRDCNodes :: "int option"
  mapping_numberOfImageCollections :: "int option"
  mapping_clinical_study_designation :: string

text \<open>\<^verbatim>\<open>study?.numberOfCRDCNodes > 0\<close>: an absent count compares false.\<close>

fun greater_than_zero :: "int option \<Rightarrow> bool" where
  "greater_than_zero None = False"
| "greater_than_zero (Some n) = (0 < n)"

fun collectMappings_loop ::
  "env \<Rightarrow> study list \<Rightarrow> idc_collection list \<Rightarrow> string option list \<Rightarrow> (string \<rightharpoonup> series list)
     \<Rightarrow> mapping list \<Rightarrow> js_error + (mapping list \<times> idc_collection list)" where
  "collectMappings_loop e [] idcCollections tciaCollections tciaCollectionsData collectionMappings =
     Inr (collectionMappings, idcCollections)"
| "collectMappings_loop e (study # rest) idcCollections tciaCollections tciaCollectionsData
       collectionMappings =
     (case mapMatchesToStudy e study idcCollections tciaCollections tciaCollectionsData of
        Inl error \<Rightarrow> Inl error
      | Inr (collectionUrls, idcCollections') \<Rightarrow>
          collectMappings_loop e rest idcCollections' tciaCollections tciaCollectionsData
            (if greater_than_zero (numberOfCRDCNodes study)
             then collectionMappings @
                    [\<lparr>CRDCLinks = collectionUrls,
                      mapping_numberOfCRDCNodes = numberOfCRDCNodes study,
                      mapping_numberOfImageCollections = numberOfImageCollections study,
                      mapping_clinical_study_designation = clinical_study_designation study\<rparr>]
             else collectionMappings))"

text \<open>
  \<^verbatim>\<open>for (const study in icdcStudies)\<close> has no iteration when \<^verbatim>\<open>icdcStudies\<close> is
  \<^verbatim>\<open>undefined\<close>.
\<close>

definition collectMappings ::
  "env \<Rightarrow> study list option \<Rightarrow> idc_collection list \<Rightarrow> string option list
     \<Rightarrow> (string \<rightharpoonup> series list) \<Rightarrow> js_error + (mapping list \<times> idc_collection list)" where
  "collectMappings e icdcStudies idcCollections tciaCollections tciaCollectionsData =
     (case icdcStudies of
        None \<Rightarrow> Inr ([], idcCollections)
      | Some studies \<Rightarrow>
          collectMappings_loop e studies idcCollections tciaCollections tciaCollectionsData [])"

section \<open>mapExternalDataToStudies\<close>

text \<open>
  The function never throws: its \<^verbatim>\<open>catch\<close> logs the error and returns it. The value
  returned is the list of mappings (with the array \<^verbatim>\<open>idcCollections\<close> their IDC metadata
  refer to) or the error caught.
\<close>

datatype returned = ReturnedMappings "mapping list" "idc_collection list" | ReturnedError js_error

definition mapExternalDataToStudies :: "env \<Rightarrow> world \<Rightarrow> js_error list \<times> returned" where
  "mapExternalDataToStudies e w =
     (case getIcdcStudyData e w of
        (log0, Inl error) \<Rightarrow> (log0 @ [error], ReturnedError error)
      | (log0, Inr icdcStudies) \<Rightarrow>
     (case getIdcCollections w of (log1, idcCollections) \<Rightarrow>
     (case getTciaCollections w of (log2, tciaCollections) \<Rightarrow>
     (case getTciaCollectionsData w tciaCollections of (log3, tciaCollectionsData) \<Rightarrow>
     (case collectMappings e icdcStudies idcCollections tciaCollections tciaCollectionsData of
        Inl error \<Rightarrow> (log0 @ log1 @ log2 @ log3 @ [error], ReturnedError error)
      | Inr (collectionMappings, idcCollections') \<Rightarrow>
          (log0 @ log1 @ log2 @ log3, ReturnedMappings collectionMappings idcCollections'))))))"

section \<open>Notions of the specification\<close>

text \<open>
  The distinct values of a list in the order of their first occurrence: the head, then the
  distinct values of the tail without the head.
\<close>

fun first_seen :: "'a list \<Rightarrow> 'a list" where
  "first_seen [] = []"
| "first_seen (x # xs) = x # filter (\<lambda>y. y \<noteq> x) (first_seen xs)"

subsection \<open>The studies of an answer of the backend\<close>

text \<open>
  The studies under \<^verbatim>\<open>data.studiesByProgram\<close> of an answer; none when either property is
  absent.
\<close>

definition studies_of :: "graphql_response \<Rightarrow> study list" where
  "studies_of response =
     (case response_data response of
        None \<Rightarrow> []
      | Some d \<Rightarrow> (case studiesByProgram d of None \<Rightarrow> [] | Some studies \<Rightarrow> studies))"

subsection \<open>Entries of collectionUrls\<close>

text \<open>
  What the specification calls a match result. An IDC entry for a match: the repository
  IDC, the base URL followed by the match, and as metadata the first object of
  \<^verbatim>\<open>idcCollections\<close> whose id is the match. A TCIA entry for a match: the repository TCIA,
  the base URL followed by the match, and the metadata \<^verbatim>\<open>getTciaCollectionMetadata\<close>
  returns for it.
\<close>

definition is_idc_entry :: "env \<Rightarrow> idc_collection list \<Rightarrow> string option \<Rightarrow> collection_url \<Rightarrow> bool" where
  "is_idc_entry e idcCollections match l =
     (repository l = IDC \<and> url l = IDC_COLLECTION_BASE_URL e @ to_string match
      \<and> (case metadata l of
            IDCMetadata i \<Rightarrow>
              map_option fst (find_first (\<lambda>obj. collection_id obj = match) idcCollections) = Some i
          | TCIAMetadata md \<Rightarrow> False))"

definition is_tcia_entry ::
  "env \<Rightarrow> (string \<rightharpoonup> series list) \<Rightarrow> study \<Rightarrow> string option \<Rightarrow> collection_url \<Rightarrow> bool" where
  "is_tcia_entry e tciaCollectionsData icdcStudy match l =
     (repository l = TCIA \<and> url l = TCIA_COLLECTION_BASE_URL e @ to_string match
      \<and> (case metadata l of
            IDCMetadata i \<Rightarrow> False
          | TCIAMetadata md \<Rightarrow>
              getTciaCollectionMetadata match tciaCollectionsData icdcStudy = Inr md))"

subsection \<open>Match results and mappings\<close>

text \<open>
  The match results of a study: for every IDC match an IDC entry, in the order of the
  matches, followed by a TCIA entry for every TCIA match that has series, in the order of
  the matches.
\<close>

definition match_results ::
  "env \<Rightarrow> study \<Rightarrow> idc_collection list \<Rightarrow> string option list \<Rightarrow> (string \<rightharpoonup> series list)
     \<Rightarrow> collection_url list \<Rightarrow> bool" where
  "match_results e icdcStudy idcCollections tciaCollections tciaCollectionsData links =
     (case search e (clinical_study_designation icdcStudy) (map collection_id idcCollections) of
        Inl error \<Rightarrow> False
      | Inr idcMatches \<Rightarrow>
     (case search e (clinical_study_designation icdcStudy) tciaCollections of
        Inl error \<Rightarrow> False
      | Inr tciaMatches \<Rightarrow>
          list_all2 (is_idc_entry e idcCollections) idcMatches (take (length idcMatches) links)
        \<and> list_all2 (is_tcia_entry e tciaCollectionsData icdcStudy)
            (filter (has_series tciaCollectionsData) tciaMatches)
            (drop (length idcMatches) links)))"

text \<open>The mapping of a study: its designation, its two counts and its match results.\<close>

definition is_study_mapping ::
  "env \<Rightarrow> idc_collection list \<Rightarrow> string option list \<Rightarrow> (string \<rightharpoonup> series list)
     \<Rightarrow> study \<Rightarrow> mapping \<Rightarrow> bool" where
  "is_study_mapping e idcCollections tciaCollections tciaCollectionsData icdcStudy m =
     (mapping_clinical_study_designation m = clinical_study_designation icdcStudy
    \<and> mapping_numberOfCRDCNodes m = numberOfCRDCNodes icdcStudy
    \<and> mapping_numberOfImageCollections m = numberOfImageCollections icdcStudy
    \<and> match_results e icdcStudy idcCollections tciaCollections tciaCollectionsData (CRDCLinks m))"

subsection \<open>What the libraries are assumed to do\<close>

text \<open>
  On candidates that are all strings \<^verbatim>\<open>search\<close> returns, and what it returns are
  candidates; on a string \<^verbatim>\<open>htmlToText\<close> returns.
\<close>

definition library_contract :: "env \<Rightarrow> bool" where
  "library_contract e =
     ((\<forall>term candidates. None \<notin> set candidates \<longrightarrow>
         (\<exists>matches. search e term candidates = Inr matches \<and> set matches \<subseteq> set candidates))
    \<and> (\<forall>html. \<exists>text. htmlToText e (Some html) = Inr text))"

definition ids_present :: "idc_collection list \<Rightarrow> bool" where
  "ids_present idcCollections = list_all (\<lambda>obj. collection_id obj \<noteq> None) idcCollections"

definition descriptions_present :: "idc_collection list \<Rightarrow> bool" where
  "descriptions_present idcCollections = list_all (\<lambda>obj. description obj \<noteq> None) idcCollections"

text \<open>Every IDC collection of the answer of the listing has a description.\<close>

definition idc_descriptions_present :: "world \<Rightarrow> bool" where
  "idc_descriptions_present w =
     (case idc_collections_endpoint w of
        Inl error \<Rightarrow> True
      | Inr response \<Rightarrow>
          (case collections response of None \<Rightarrow> True | Some array \<Rightarrow> descriptions_present array))"

section \<open>An instance for the examples\<close>

text \<open>
  For the examples: a \<^verbatim>\<open>search\<close> that returns the candidates that contain the term
  (and calls a string method on every candidate, so throws on \<^verbatim>\<open>undefined\<close>), and an
  \<^verbatim>\<open>htmlToText\<close> that decodes the character reference \<^verbatim>\<open>&amp;\<close>, as a conversion of
  HTML to text does.
\<close>

definition sample_search :: "string \<Rightarrow> string option list \<Rightarrow> js_error + string option list" where
  "sample_search term candidates =
     (if None \<in> set candidates then Inl TypeError
      else Inr (filter (\<lambda>c. str_includes (to_string c) term) candidates))"

fun decode_amp :: "string \<Rightarrow> string" where
  "decode_amp [] = []"
| "decode_amp (c # cs) =
     (if starts_with (c # cs) ''&amp;'' then CHR ''&'' # decode_amp (drop 4 cs)
      else c # decode_amp cs)"

definition sample_htmlToText :: "string option \<Rightarrow> js_error + string" where
  "sample_htmlToText html = (case html of None \<Rightarrow> Inl TypeError | Some s \<Rightarrow> Inr (decode_amp s))"

definition sample_env :: env where
  "sample_env =
     \<lparr>IDC_COLLECTION_BASE_URL = ''idc/'',
      TCIA_COLLECTION_BASE_URL = ''tcia/'',
      BENTO_BACKEND_NOT_CONNECTED = ''BENTO_BACKEND_NOT_CONNECTED'',
      search = sample_search,
      htmlToText = sample_htmlToText\<rparr>"

definition sample_study :: study where
  "sample_study =
     \<lparr>clinical_study_designation = ''COTC007B'', numberOfImageCollections = Some 2,
      numberOfCRDCNodes = Some 3\<rparr>"

definition sample_idcCollections :: "idc_collection list" where
  "sample_idcCollections =
     [\<lparr>collection_id = Some ''icdc_COTC007B'', description = Some ''a &amp;amp; b''\<rparr>,
      \<lparr>collection_id = Some ''icdc_GLIOMA01'', description = Some ''c''\<rparr>]"

definition sample_tciaCollections :: "string option list" where
  "sample_tciaCollections =
     [Some ''ICDC-COTC007B'', Some ''ICDC-COTC007B-2'', Some ''ICDC-COTC007B-3'',
      Some ''ICDC-GLIOMA01'']"

definition sample_series :: "series list" where
  "sample_series =
     [\<lparr>ImageCount = ''10'', PatientID = ''p1'', Modality = ''MR'', BodyPartExamined = ''HEAD''\<rparr>,
      \<lparr>ImageCount = ''5'', PatientID = ''p2'', Modality = ''MR'', BodyPartExamined = ''LEG''\<rparr>]"

definition sample_tciaCollectionsData :: "string \<rightharpoonup> series list" where
  "sample_tciaCollectionsData =
     [''ICDC-COTC007B'' \<mapsto> sample_series, ''ICDC-COTC007B-2'' \<mapsto> [],
      ''ICDC-GLIOMA01'' \<mapsto> sample_series]"

definition sample_studies :: "study list" where
  "sample_studies =
     [\<lparr>clinical_study_designation = ''GLIOMA01'', numberOfImageCollections = Some 1,
       numberOfCRDCNodes = Some 0\<rparr>,
      sample_study,
      \<lparr>clinical_study_designation = ''COTC007B'', numberOfImageCollections = Some 1,
       numberOfCRDCNodes = None\<rparr>]"

text \<open>
  All four services answer. The IDC listing has a collection of another programme, the
  TCIA listing as well; of the four ICDC collections of TCIA one has no series and the
  series request of one fails.
\<close>

definition sample_series_endpoint :: "string \<Rightarrow> js_error + series list" where
  "sample_series_endpoint name =
     (if name = ''ICDC-COTC007B'' then Inr sample_series
      else if name = ''ICDC-GLIOMA01'' then Inr sample_series
      else if name = ''ICDC-COTC007B-2'' then Inr []
      else Inl FetchError)"

definition sample_world :: world where
  "sample_world =
     \<lparr>bento_backend =
        Inr (Some \<lparr>response_data = Some \<lparr>studiesByProgram = Some sample_studies\<rparr>\<rparr>),
      idc_collections_endpoint =
        Inr \<lparr>collections =
               Some (sample_idcCollections
                     @ [\<lparr>collection_id = Some ''tcga_brca'', description = Some ''d''\<rparr>])\<rparr>,
      tcia_collections_endpoint =
        Inr (map (\<lambda>name. \<lparr>listing_Collection = name\<rparr>) sample_tciaCollections
             @ [\<lparr>listing_Collection = Some ''TCGA-BRCA''\<rparr>]),
      tcia_series_endpoint = sample_series_endpoint\<rparr>"

section \<open>Facts about Set and reduce\<close>

lemma set_first_seen: "set (first_seen xs) = set xs"
  by (induction xs) auto

lemma distinct_first_seen: "distinct (first_seen xs)"
  by (induction xs) (auto simp: set_first_seen)

lemma foldl_set_add:
  "foldl set_add acc xs = acc @ filter (\<lambda>y. y \<notin> set acc) (first_seen xs)"
proof (induction xs arbitrary: acc)
  case Nil
  then show ?case by simp
next
  case (Cons x xs)
  show ?case
  proof (cases "x \<in> set acc")
    case True
    have "filter (\<lambda>y. y \<notin> set acc) (filter (\<lambda>y. y \<noteq> x) (first_seen xs))
            = filter (\<lambda>y. y \<notin> set acc) (first_seen xs)"
      using True by (auto intro: filter_cong)
    with True Cons show ?thesis by (simp add: set_add_def)
  next
    case False
    have "filter (\<lambda>y. y \<notin> set (acc @ [x])) (first_seen xs)
            = filter (\<lambda>y. y \<notin> set acc) (filter (\<lambda>y. y \<noteq> x) (first_seen xs))"
      by (auto intro: filter_cong)
    with False Cons [of "acc @ [x]"] show ?thesis by (simp add: set_add_def)
  qed
qed

lemma new_Set_first_seen: "new_Set xs = first_seen xs"
  by (simp add: new_Set_def foldl_set_add)

lemma length_new_Set: "length (new_Set xs) = card (set xs)"
  using distinct_card [OF distinct_first_seen, of xs]
  by (simp add: new_Set_first_seen set_first_seen)

lemma round_to_double_exact: "\<bar>n\<bar> \<le> 2 ^ 53 \<Longrightarrow> round_to_double n = Num n"
  by (simp add: round_to_double_def)

lemma js_add_NaN_right: "js_add x NaN = NaN"
  by (cases x) simp_all

lemma foldl_js_add_NaN: "foldl (\<lambda>tot obj. js_add tot (f obj)) NaN xs = NaN"
  by (induction xs) auto

lemma foldl_js_add_NaN_mem:
  "NaN \<in> set (map f xs) \<Longrightarrow> foldl (\<lambda>tot obj. js_add tot (f obj)) acc xs = NaN"
proof (induction xs arbitrary: acc)
  case Nil
  then show ?case by simp
next
  case (Cons x xs)
  show ?case
  proof (cases "f x = NaN")
    case True
    then show ?thesis by (simp add: js_add_NaN_right foldl_js_add_NaN)
  next
    case False
    with Cons.prems have "NaN \<in> set (map f xs)" by auto
    from Cons.IH [OF this] show ?thesis by simp
  qed
qed

lemma foldl_js_add_exact:
  "map f xs = map Num ns \<Longrightarrow> \<bar>a\<bar> + sum_list (map abs ns) \<le> 2 ^ 53 \<Longrightarrow>
     foldl (\<lambda>tot obj. js_add tot (f obj)) (Num a) xs = Num (a + sum_list ns)"
proof (induction xs arbitrary: a ns)
  case Nil
  then show ?case by simp
next
  case (Cons x xs)
  from Cons.prems(1) obtain n ns' where ns: "ns = n # ns'" and fx: "f x = Num n"
    and m: "map f xs = map Num ns'" by (cases ns) auto
  have nonneg: "0 \<le> sum_list (map abs ns')" by (induction ns') auto
  from Cons.prems(2) nonneg have b: "\<bar>a + n\<bar> \<le> 2 ^ 53" by (simp add: ns)
  from Cons.prems(2) have b': "\<bar>a + n\<bar> + sum_list (map abs ns') \<le> 2 ^ 53" by (simp add: ns)
  from Cons.IH [OF m b'] show ?case
    by (simp add: fx ns round_to_double_exact [OF b] add.assoc)
qed

lemma totalImages_exact:
  assumes "map (\<lambda>obj. parseInt (ImageCount obj)) xs = map Num ns"
      and "sum_list (map abs ns) \<le> 2 ^ 53"
  shows "foldl (\<lambda>tot obj. js_add tot (parseInt (ImageCount obj))) (Num 0) xs = Num (sum_list ns)"
  using foldl_js_add_exact [OF assms(1), of 0] assms(2) by simp

lemma sum_list_abs: "\<bar>sum_list ns\<bar> \<le> sum_list (map abs (ns :: int list))"
  by (induction ns) auto

lemmas parseInt_simps =
  parseInt_def is_StrWhiteSpaceChar_def is_radix_digit_def digit_value_def digits_value_def
  round_to_double_exact

section \<open>Facts about the loops of mapMatchesToStudy\<close>

lemma list_all2_set_left: "list_all2 P xs ys \<Longrightarrow> y \<in> set ys \<Longrightarrow> \<exists>x\<in>set xs. P x y"
  by (induction rule: list_all2_induct) auto

lemma find_first_Some:
  "find_first P xs = Some (i, x) \<Longrightarrow> i < length xs \<and> xs ! i = x \<and> P x"
  by (induction xs arbitrary: i) (auto split: if_splits option.splits)

lemma find_first_map_cong:
  "map f xs = map f ys \<Longrightarrow>
     map_option fst (find_first (\<lambda>x. Q (f x)) xs) = map_option fst (find_first (\<lambda>x. Q (f x)) ys)"
proof (induction xs arbitrary: ys)
  case Nil
  then show ?case by simp
next
  case (Cons x xs)
  then obtain y ys' where ys: "ys = y # ys'" and fx: "f x = f y" and m: "map f xs = map f ys'"
    by (cases ys) auto
  from Cons.IH [OF m] show ?case
    by (simp add: ys fx split: option.splits) (auto split: option.splits)
qed

lemma getIdcCollectionMetadata_Inr:
  assumes "getIdcCollectionMetadata e m cols st = Inr (i, cols')"
  shows "map_option fst (find_first (\<lambda>obj. collection_id obj = m) cols) = Some i
         \<and> map collection_id cols' = map collection_id cols"
proof -
  from assms have "\<exists>obj d. find_first (\<lambda>obj. collection_id obj = m) cols = Some (i, obj)
                     \<and> cols' = cols[i := obj\<lparr>description := d\<rparr>]"
    by (force simp: getIdcCollectionMetadata_def split: option.splits sum.splits if_splits)
  then obtain obj d where f: "find_first (\<lambda>obj. collection_id obj = m) cols = Some (i, obj)"
    and c': "cols' = cols[i := obj\<lparr>description := d\<rparr>]" by blast
  from find_first_Some [OF f] have i: "i < length cols" and o: "cols ! i = obj" by auto
  have "map collection_id cols' = (map collection_id cols)[i := collection_id obj]"
    by (simp add: c' map_update)
  also have "\<dots> = map collection_id cols"
    using i o by (metis list_update_id map_update)
  finally show ?thesis using f by simp
qed

lemma is_idc_entry_cong:
  assumes "map collection_id cols' = map collection_id cols"
  shows "is_idc_entry e cols' = is_idc_entry e cols"
proof (intro ext)
  fix m l
  from find_first_map_cong [OF assms, of "\<lambda>c. c = m"]
  show "is_idc_entry e cols' m l = is_idc_entry e cols m l"
    by (simp add: is_idc_entry_def split: metadata.splits)
qed

lemma getTciaCollectionMetadata_returns:
  "has_series tdata m \<Longrightarrow> \<exists>md. getTciaCollectionMetadata m tdata st = Inr md"
  by (cases "tdata (to_string m)") (simp_all add: has_series_def getTciaCollectionMetadata_def Let_def)

lemma idc_loop_Inr:
  "idc_loop e st ms cols acc = Inr (urls, cols') \<Longrightarrow>
     \<exists>A. urls = acc @ A \<and> list_all2 (is_idc_entry e cols) ms A
        \<and> map collection_id cols' = map collection_id cols"
proof (induction ms arbitrary: cols acc)
  case Nil
  then show ?case by simp
next
  case (Cons m ms)
  from Cons.prems obtain i cols1 where g: "getIdcCollectionMetadata e m cols st = Inr (i, cols1)"
    and l: "idc_loop e st ms cols1
              (acc @ [\<lparr>repository = IDC, url = IDC_COLLECTION_BASE_URL e @ to_string m,
                       metadata = IDCMetadata i\<rparr>]) = Inr (urls, cols')"
    by (auto split: sum.splits)
  from getIdcCollectionMetadata_Inr [OF g]
  have f: "map_option fst (find_first (\<lambda>obj. collection_id obj = m) cols) = Some i"
    and c1: "map collection_id cols1 = map collection_id cols" by auto
  from Cons.IH [OF l] obtain A where
    u: "urls = (acc @ [\<lparr>repository = IDC, url = IDC_COLLECTION_BASE_URL e @ to_string m,
                        metadata = IDCMetadata i\<rparr>]) @ A"
    and a: "list_all2 (is_idc_entry e cols1) ms A"
    and c: "map collection_id cols' = map collection_id cols1" by blast
  have "is_idc_entry e cols m \<lparr>repository = IDC, url = IDC_COLLECTION_BASE_URL e @ to_string m,
                        metadata = IDCMetadata i\<rparr>"
    using f by (simp add: is_idc_entry_def)
  with a u c c1 show ?case
    by (intro exI [of _ "\<lparr>repository = IDC, url = IDC_COLLECTION_BASE_URL e @ to_string m,
                        metadata = IDCMetadata i\<rparr> # A"]) (simp add: is_idc_entry_cong [OF c1])
qed

lemma tcia_loop_Inr:
  "\<exists>B. tcia_loop e st tdata ms acc = Inr (acc @ B)
      \<and> list_all2 (is_tcia_entry e tdata st) (filter (has_series tdata) ms) B"
proof (induction ms arbitrary: acc)
  case Nil
  then show ?case by simp
next
  case (Cons m ms)
  show ?case
  proof (cases "has_series tdata m")
    case False
    with Cons [of acc] show ?thesis by simp
  next
    case True
    from getTciaCollectionMetadata_returns [OF True]
    obtain md where g: "getTciaCollectionMetadata m tdata st = Inr md" by blast
    let ?l = "\<lparr>repository = TCIA, url = TCIA_COLLECTION_BASE_URL e @ to_string m,
               metadata = TCIAMetadata md\<rparr>"
    from Cons [of "acc @ [?l]"] obtain B where
      "tcia_loop e st tdata ms (acc @ [?l]) = Inr ((acc @ [?l]) @ B)"
      "list_all2 (is_tcia_entry e tdata st) (filter (has_series tdata) ms) B" by blast
    moreover have "is_tcia_entry e tdata st m ?l" using g by (simp add: is_tcia_entry_def)
    ultimately show ?thesis using True g
      by (intro exI [of _ "?l # B"]) simp
  qed
qed

lemma mapMatchesToStudy_Inr:
  assumes "mapMatchesToStudy e st cols names tdata = Inr (links, cols')"
  shows "\<exists>idcMatches tciaMatches A B.
           search e (clinical_study_designation st) (map collection_id cols) = Inr idcMatches
         \<and> search e (clinical_study_designation st) names = Inr tciaMatches
         \<and> links = A @ B
         \<and> list_all2 (is_idc_entry e cols) idcMatches A
         \<and> list_all2 (is_tcia_entry e tdata st) (filter (has_series tdata) tciaMatches) B
         \<and> map collection_id cols' = map collection_id cols"
proof -
  from assms obtain im tm where
    s1: "search e (clinical_study_designation st) (map collection_id cols) = Inr im" and
    s2: "search e (clinical_study_designation st) names = Inr tm"
    by (auto simp: mapMatchesToStudy_def split: sum.splits)
  from assms s1 s2 obtain A where
    i: "idc_loop e st im cols [] = Inr (A, cols')" and
    t: "tcia_loop e st tdata tm A = Inr links"
    by (cases im; cases tm) (auto simp: mapMatchesToStudy_def split: sum.splits if_splits)
  from idc_loop_Inr [OF i] have a: "list_all2 (is_idc_entry e cols) im A"
    and c: "map collection_id cols' = map collection_id cols" by auto
  from tcia_loop_Inr [of e st tdata tm A] t obtain B where
    "links = A @ B" "list_all2 (is_tcia_entry e tdata st) (filter (has_series tdata) tm) B"
    by auto
  with s1 s2 a c show ?thesis by blast
qed

lemma match_results_cong:
  assumes "map collection_id cols' = map collection_id cols"
  shows "match_results e st cols' names tdata = match_results e st cols names tdata"
  by (simp add: match_results_def assms is_idc_entry_cong [OF assms] fun_eq_iff cong: sum.case_cong)

lemma mapMatchesToStudy_match_results:
  assumes "mapMatchesToStudy e st cols names tdata = Inr (links, cols')"
  shows "match_results e st cols names tdata links"
proof -
  from mapMatchesToStudy_Inr [OF assms] obtain im tm A B where
    "search e (clinical_study_designation st) (map collection_id cols) = Inr im"
    "search e (clinical_study_designation st) names = Inr tm"
    "links = A @ B" and a: "list_all2 (is_idc_entry e cols) im A"
    and "list_all2 (is_tcia_entry e tdata st) (filter (has_series tdata) tm) B" by blast
  moreover from a have "length A = length im" by (simp add: list_all2_lengthD)
  ultimately show ?thesis by (simp add: match_results_def)
qed

lemma find_first_None: "find_first P xs = None \<longleftrightarrow> (\<forall>x\<in>set xs. \<not> P x)"
  by (induction xs) (auto split: option.splits)

lemma getIdcCollectionMetadata_returns:
  assumes "m \<in> set (map collection_id cols)" and "descriptions_present cols"
      and "\<forall>html. \<exists>text. htmlToText e (Some html) = Inr text"
  shows "\<exists>i cols'. getIdcCollectionMetadata e m cols st = Inr (i, cols')
           \<and> descriptions_present cols'"
proof -
  from assms(1) have "find_first (\<lambda>obj. collection_id obj = m) cols \<noteq> None"
    by (auto simp: find_first_None)
  then obtain i obj where f: "find_first (\<lambda>obj. collection_id obj = m) cols = Some (i, obj)"
    by auto
  from find_first_Some [OF f] have "obj \<in> set cols" by auto
  with assms(2) obtain d where d: "description obj = Some d"
    by (auto simp: descriptions_present_def list_all_iff)
  from assms(3) obtain t where t: "htmlToText e (Some d) = Inr t" by blast
  have "descriptions_present (cols[i := obj\<lparr>description := Some x\<rparr>])" for x
    using assms(2) set_update_subset_insert [of cols i "obj\<lparr>description := Some x\<rparr>"]
    by (auto simp: descriptions_present_def list_all_iff)
  then show ?thesis
    by (simp add: getIdcCollectionMetadata_def f d t)
qed

lemma idc_loop_returns:
  assumes "\<forall>html. \<exists>text. htmlToText e (Some html) = Inr text"
  shows "set ms \<subseteq> set (map collection_id cols) \<Longrightarrow> descriptions_present cols \<Longrightarrow>
     \<exists>urls cols'. idc_loop e st ms cols acc = Inr (urls, cols') \<and> descriptions_present cols'"
proof (induction ms arbitrary: cols acc)
  case Nil
  then show ?case by simp
next
  case (Cons m ms)
  from Cons.prems have "m \<in> set (map collection_id cols)" by simp
  from getIdcCollectionMetadata_returns [OF this Cons.prems(2) assms, of st]
  obtain i cols1 where g: "getIdcCollectionMetadata e m cols st = Inr (i, cols1)"
    and d: "descriptions_present cols1" by blast
  from getIdcCollectionMetadata_Inr [OF g] Cons.prems(1)
  have "set ms \<subseteq> set (map collection_id cols1)" by simp
  from Cons.IH [OF this d] g show ?case by simp
qed

lemma mapMatchesToStudy_returns:
  assumes "library_contract e" and "ids_present cols" and "descriptions_present cols"
      and "None \<notin> set names"
  shows "\<exists>links cols'. mapMatchesToStudy e st cols names tdata = Inr (links, cols')
           \<and> descriptions_present cols'"
proof -
  from assms(2) have "None \<notin> set (map collection_id cols)"
    by (auto simp: ids_present_def list_all_iff)
  with assms(1) obtain im where
    s1: "search e (clinical_study_designation st) (map collection_id cols) = Inr im"
    and sub: "set im \<subseteq> set (map collection_id cols)"
    unfolding library_contract_def by blast
  from assms(1,4) obtain tm where
    s2: "search e (clinical_study_designation st) names = Inr tm"
    unfolding library_contract_def by blast
  from assms(1) have h: "\<forall>html. \<exists>text. htmlToText e (Some html) = Inr text"
    by (simp add: library_contract_def)
  from idc_loop_returns [OF h sub assms(3), of st "[]"] obtain A cols' where
    i: "idc_loop e st im cols [] = Inr (A, cols')" and d: "descriptions_present cols'" by blast
  from tcia_loop_Inr [of e st tdata tm A] obtain B where
    t: "tcia_loop e st tdata tm A = Inr (A @ B)" by blast
  have i': "(if im \<noteq> [] then idc_loop e st im cols [] else Inr ([], cols)) = Inr (A, cols')"
    using i by (cases im) auto
  have t': "(if tm \<noteq> [] then tcia_loop e st tdata tm A else Inr A) = Inr (A @ B)"
    using t by (cases tm) auto
  show ?thesis
    by (simp add: mapMatchesToStudy_def s1 s2 i' t' d)
qed

section \<open>Facts about collectMappings\<close>

lemma is_study_mapping_cong:
  assumes "map collection_id cols' = map collection_id cols"
  shows "is_study_mapping e cols' names tdata = is_study_mapping e cols names tdata"
  by (simp add: is_study_mapping_def match_results_cong [OF assms] fun_eq_iff)

lemma collectMappings_loop_Inr:
  "collectMappings_loop e studies cols names tdata acc = Inr (ms, cols') \<Longrightarrow>
     \<exists>new. ms = acc @ new
        \<and> list_all2 (is_study_mapping e cols names tdata)
             (filter (\<lambda>s. greater_than_zero (numberOfCRDCNodes s)) studies) new
        \<and> map collection_id cols' = map collection_id cols"
proof (induction studies arbitrary: cols acc)
  case Nil
  then show ?case by simp
next
  case (Cons s studies)
  let ?m = "\<lambda>links. \<lparr>CRDCLinks = links,
                      mapping_numberOfCRDCNodes = numberOfCRDCNodes s,
                      mapping_numberOfImageCollections = numberOfImageCollections s,
                      mapping_clinical_study_designation = clinical_study_designation s\<rparr>"
  from Cons.prems obtain links cols1 where
    g: "mapMatchesToStudy e s cols names tdata = Inr (links, cols1)" and
    l: "collectMappings_loop e studies cols1 names tdata
          (if greater_than_zero (numberOfCRDCNodes s) then acc @ [?m links] else acc)
        = Inr (ms, cols')"
    by (auto split: sum.splits)
  from mapMatchesToStudy_Inr [OF g] have c1: "map collection_id cols1 = map collection_id cols"
    by blast
  from mapMatchesToStudy_match_results [OF g]
  have sm: "is_study_mapping e cols names tdata s (?m links)"
    by (simp add: is_study_mapping_def)
  from Cons.IH [OF l] obtain new where
    m: "ms = (if greater_than_zero (numberOfCRDCNodes s) then acc @ [?m links] else acc) @ new"
    and a: "list_all2 (is_study_mapping e cols names tdata)
              (filter (\<lambda>s. greater_than_zero (numberOfCRDCNodes s)) studies) new"
    and c: "map collection_id cols' = map collection_id cols1"
    by (auto simp: is_study_mapping_cong [OF c1])
  show ?case
  proof (cases "greater_than_zero (numberOfCRDCNodes s)")
    case True
    with m a c c1 sm show ?thesis by (intro exI [of _ "?m links # new"]) simp
  next
    case False
    with m a c c1 show ?thesis by (intro exI [of _ new]) simp
  qed
qed

lemma ids_present_cong:
  "map collection_id cols' = map collection_id cols \<Longrightarrow> ids_present cols' = ids_present cols"
proof -
  assume a: "map collection_id cols' = map collection_id cols"
  have h: "ids_present c = (None \<notin> set (map collection_id c))" for c
    by (induction c) (auto simp: ids_present_def)
  show ?thesis by (simp only: h a)
qed

lemma collectMappings_loop_returns:
  assumes "library_contract e" and "None \<notin> set names"
  shows "ids_present cols \<Longrightarrow> descriptions_present cols \<Longrightarrow>
     \<exists>ms cols'. collectMappings_loop e studies cols names tdata acc = Inr (ms, cols')"
proof (induction studies arbitrary: cols acc)
  case Nil
  then show ?case by simp
next
  case (Cons s studies)
  from mapMatchesToStudy_returns [OF assms(1) Cons.prems assms(2), of s tdata]
  obtain links cols1 where g: "mapMatchesToStudy e s cols names tdata = Inr (links, cols1)"
    and d: "descriptions_present cols1" by blast
  from mapMatchesToStudy_Inr [OF g] have "map collection_id cols1 = map collection_id cols"
    by blast
  from ids_present_cong [OF this] Cons.prems(1) have i: "ids_present cols1" by simp
  from Cons.IH [OF i d] g show ?case by simp
qed

section \<open>Facts about the fetchers and the entry point\<close>

lemma filterObjectArray_eq:
  "filterObjectArray array property key =
     (if \<exists>obj\<in>set array. property obj = None then Inl TypeError
      else Inr (filter (\<lambda>obj. case property obj of None \<Rightarrow> False | Some v \<Rightarrow> str_includes v key)
                  array))"
  by (induction array) (auto split: option.splits)

lemma getIdcCollections_well_formed:
  "getIdcCollections w = (log, cols) \<Longrightarrow>
     ids_present cols \<and> (idc_descriptions_present w \<longrightarrow> descriptions_present cols)"
  by (auto simp: getIdcCollections_def filterObjectArray_eq ids_present_def
        descriptions_present_def idc_descriptions_present_def list_all_iff
      split: sum.splits option.splits if_splits)

lemma getTciaCollections_strings:
  "getTciaCollections w = (log, names) \<Longrightarrow> None \<notin> set names"
  by (auto simp: getTciaCollections_def filterObjectArray_eq
      split: sum.splits option.splits if_splits)

lemma getTciaCollectionData_to_string:
  "getTciaCollectionData w (Some (to_string c)) = getTciaCollectionData w c"
  by (simp add: getTciaCollectionData_def)

lemma getTciaCollectionsData_loop_eq:
  "getTciaCollectionsData_loop w names acc
   = (concat (map (\<lambda>c. fst (getTciaCollectionData w c)) names),
      (\<lambda>k. if k \<in> to_string ` set names then Some (snd (getTciaCollectionData w (Some k)))
            else acc k))"
proof (induction names arbitrary: acc)
  case Nil
  then show ?case by simp
next
  case (Cons c names)
  show ?case
    by (auto simp: Cons.IH fun_eq_iff getTciaCollectionData_to_string split: prod.splits)
qed

lemma getTciaCollectionsData_eq:
  "getTciaCollectionsData w names
   = (concat (map (\<lambda>c. fst (getTciaCollectionData w c)) names),
      (\<lambda>k. if k \<in> to_string ` set names then Some (snd (getTciaCollectionData w (Some k)))
            else None))"
  by (simp add: getTciaCollectionsData_def getTciaCollectionsData_loop_eq)

lemma mapExternalDataToStudies_mappings:
  assumes "library_contract e" and "bento_backend w = Inr (Some response)"
      and "idc_descriptions_present w"
  shows "\<exists>ms cols.
           mapExternalDataToStudies e w
             = (fst (getIdcCollections w) @ fst (getTciaCollections w)
                  @ fst (getTciaCollectionsData w (snd (getTciaCollections w))),
                ReturnedMappings ms cols)
         \<and> list_all2
             (is_study_mapping e (snd (getIdcCollections w)) (snd (getTciaCollections w))
                (snd (getTciaCollectionsData w (snd (getTciaCollections w)))))
             (filter (\<lambda>s. greater_than_zero (numberOfCRDCNodes s)) (studies_of response)) ms
         \<and> map collection_id cols = map collection_id (snd (getIdcCollections w))"
proof -
  obtain studies where s: "getIcdcStudyData e w = ([], Inr studies)"
    and so: "studies_of response = (case studies of None \<Rightarrow> [] | Some ss \<Rightarrow> ss)"
    using assms(2) by (simp add: getIcdcStudyData_def studies_of_def split: option.splits)
  obtain log1 cols where c: "getIdcCollections w = (log1, cols)" by (cases "getIdcCollections w")
  obtain log2 names where n: "getTciaCollections w = (log2, names)"
    by (cases "getTciaCollections w")
  obtain log3 tdata where d: "getTciaCollectionsData w names = (log3, tdata)"
    by (cases "getTciaCollectionsData w names")
  from getIdcCollections_well_formed [OF c] assms(3)
  have i: "ids_present cols" and p: "descriptions_present cols" by auto
  from getTciaCollections_strings [OF n] have nn: "None \<notin> set names" .
  have "\<exists>ms cols'. collectMappings e studies cols names tdata = Inr (ms, cols')
          \<and> list_all2 (is_study_mapping e cols names tdata)
              (filter (\<lambda>s. greater_than_zero (numberOfCRDCNodes s)) (studies_of response)) ms
          \<and> map collection_id cols' = map collection_id cols"
  proof (cases studies)
    case None
    with so show ?thesis by (simp add: collectMappings_def)
  next
    case (Some ss)
    from collectMappings_loop_returns [OF assms(1) nn i p, of ss tdata "[]"]
    obtain ms cols' where r: "collectMappings_loop e ss cols names tdata [] = Inr (ms, cols')"
      by blast
    from collectMappings_loop_Inr [OF r] so Some r show ?thesis
      by (simp add: collectMappings_def)
  qed
  then obtain ms cols' where "collectMappings e studies cols names tdata = Inr (ms, cols')"
    and "list_all2 (is_study_mapping e cols names tdata)
              (filter (\<lambda>s. greater_than_zero (numberOfCRDCNodes s)) (studies_of response)) ms"
    and "map collection_id cols' = map collection_id cols"
    by blast
  with s c n d show ?thesis by (simp add: mapExternalDataToStudies_def)
qed

lemma is_study_mapping_no_idc:
  assumes "library_contract e" and "is_study_mapping e [] names tdata s m"
  shows "mapping_clinical_study_designation m = clinical_study_designation s
       \<and> mapping_numberOfCRDCNodes m = numberOfCRDCNodes s
       \<and> mapping_numberOfImageCollections m = numberOfImageCollections s
       \<and> (\<exists>tciaMatches.
            search e (clinical_study_designation s) names = Inr tciaMatches
          \<and> list_all2 (is_tcia_entry e tdata s) (filter (has_series tdata) tciaMatches)
              (CRDCLinks m))"
proof -
  from assms(1) obtain im where
    "search e (clinical_study_designation s) [] = Inr im" and "set im \<subseteq> set []"
    unfolding library_contract_def by (metis empty_iff list.set(1))
  then have s: "search e (clinical_study_designation s) [] = Inr []" by simp
  from assms(2) s show ?thesis
    by (auto simp: is_study_mapping_def match_results_def split: sum.splits)
qed

lemma mapExternalDataToStudies_without_idc:
  assumes "library_contract e" and "bento_backend w = Inr (Some response)"
      and "idc_collections_endpoint w = Inl error"
  shows "\<exists>ms. mapExternalDataToStudies e w
                 = (error # fst (getTciaCollections w)
                      @ fst (getTciaCollectionsData w (snd (getTciaCollections w))),
                    ReturnedMappings ms [])
         \<and> list_all2
             (\<lambda>s m. mapping_clinical_study_designation m = clinical_study_designation s
                  \<and> mapping_numberOfCRDCNodes m = numberOfCRDCNodes s
                  \<and> mapping_numberOfImageCollections m = numberOfImageCollections s
                  \<and> (\<exists>tciaMatches.
                        search e (clinical_study_designation s) (snd (getTciaCollections w))
                          = Inr tciaMatches
                      \<and> list_all2
                          (is_tcia_entry e
                             (snd (getTciaCollectionsData w (snd (getTciaCollections w)))) s)
                          (filter
                             (has_series
                                (snd (getTciaCollectionsData w (snd (getTciaCollections w)))))
                             tciaMatches)
                          (CRDCLinks m)))
             (filter (\<lambda>s. greater_than_zero (numberOfCRDCNodes s)) (studies_of response)) ms"
proof -
  have c: "getIdcCollections w = ([error], [])"
    using assms(3) by (simp add: getIdcCollections_def)
  have p: "idc_descriptions_present w"
    using assms(3) by (simp add: idc_descriptions_present_def)
  from mapExternalDataToStudies_mappings [OF assms(1,2) p] obtain ms cols where
    m: "mapExternalDataToStudies e w
          = (fst (getIdcCollections w) @ fst (getTciaCollections w)
               @ fst (getTciaCollectionsData w (snd (getTciaCollections w))),
             ReturnedMappings ms cols)"
    and a: "list_all2
             (is_study_mapping e (snd (getIdcCollections w)) (snd (getTciaCollections w))
                (snd (getTciaCollectionsData w (snd (getTciaCollections w)))))
             (filter (\<lambda>s. greater_than_zero (numberOfCRDCNodes s)) (studies_of response)) ms"
    and i: "map collection_id cols = map collection_id (snd (getIdcCollections w))"
    by blast
  from i c have e: "cols = []" by simp
  from a c have a': "list_all2
             (is_study_mapping e [] (snd (getTciaCollections w))
                (snd (getTciaCollectionsData w (snd (getTciaCollections w)))))
             (filter (\<lambda>s. greater_than_zero (numberOfCRDCNodes s)) (studies_of response)) ms"
    by simp
  show ?thesis
  proof (rule exI [of _ ms], rule conjI)
    from m c e show "mapExternalDataToStudies e w
                 = (error # fst (getTciaCollections w)
                      @ fst (getTciaCollectionsData w (snd (getTciaCollections w))),
                    ReturnedMappings ms [])" by simp
  next
    show "list_all2
             (\<lambda>s m. mapping_clinical_study_designation m = clinical_study_designation s
                  \<and> mapping_numberOfCRDCNodes m = numberOfCRDCNodes s
                  \<and> mapping_numberOfImageCollections m = numberOfImageCollections s
                  \<and> (\<exists>tciaMatches.
                        search e (clinical_study_designation s) (snd (getTciaCollections w))
                          = Inr tciaMatches
                      \<and> list_all2
                          (is_tcia_entry e
                             (snd (getTciaCollectionsData w (snd (getTciaCollections w)))) s)
                          (filter
                             (has_series
                                (snd (getTciaCollectionsData w (snd (getTciaCollections w)))))
                             tciaMatches)
                          (CRDCLinks m)))
             (filter (\<lambda>s. greater_than_zero (numberOfCRDCNodes s)) (studies_of response)) ms"
      by (rule list_all2_mono [OF a']) (rule is_study_mapping_no_idc [OF assms(1)])
  qed
qed

lemma find_first_update:
  assumes "find_first (\<lambda>obj. collection_id obj = m) cols = Some (i, obj)"
  shows "find_first (\<lambda>obj. collection_id obj = m) (cols[i := obj\<lparr>description := d\<rparr>])
           = Some (i, obj\<lparr>description := d\<rparr>)"
  using assms
proof (induction cols arbitrary: i)
  case Nil
  then show ?case by simp
next
  case (Cons c cols)
  show ?case
  proof (cases "collection_id c = m")
    case True
    with Cons.prems show ?thesis by auto
  next
    case False
    with Cons.prems obtain j where i: "i = Suc j"
      and f: "find_first (\<lambda>obj. collection_id obj = m) cols = Some (j, obj)"
      by (auto split: option.splits)
    from Cons.IH [OF f] False show ?thesis by (simp add: i)
  qed
qed

section \<open>Facts about the examples\<close>

lemma library_contract_sample_env: "library_contract sample_env"
  by (auto simp: library_contract_def sample_env_def sample_search_def sample_htmlToText_def)

lemmas sample_simps =
  sample_env_def sample_search_def sample_htmlToText_def sample_study_def
  sample_idcCollections_def sample_tciaCollections_def sample_series_def
  sample_tciaCollectionsData_def

lemmas eval_simps =
  mapMatchesToStudy_def getIdcCollectionMetadata_def getTciaCollectionMetadata_def
  has_series_def new_Set_def set_add_def Let_def parseInt_simps


lemma sample_mapMatchesToStudy:
  "mapMatchesToStudy sample_env sample_study sample_idcCollections sample_tciaCollections
     sample_tciaCollectionsData
   = Inr ([\<lparr>repository = IDC, url = ''idc/icdc_COTC007B'', metadata = IDCMetadata 0\<rparr>,
           \<lparr>repository = TCIA, url = ''tcia/ICDC-COTC007B'',
             metadata = TCIAMetadata
               \<lparr>Collection = Some ''ICDC-COTC007B'', Aggregate_PatientID = 2,
                Aggregate_Modality = [''MR''], Aggregate_BodyPartExamined = [''HEAD'', ''LEG''],
                Aggregate_ImageCount = Num 15\<rparr>\<rparr>],
          [\<lparr>collection_id = Some ''icdc_COTC007B'', description = Some ''a &amp; b''\<rparr>,
           \<lparr>collection_id = Some ''icdc_GLIOMA01'', description = Some ''c''\<rparr>])"
  by (simp add: sample_simps eval_simps)


lemma sample_mapMatchesToStudy_glioma:
  "mapMatchesToStudy sample_env
     \<lparr>clinical_study_designation = ''GLIOMA01'', numberOfImageCollections = Some 1,
       numberOfCRDCNodes = Some 0\<rparr>
     sample_idcCollections sample_tciaCollections sample_tciaCollectionsData
   = Inr ([\<lparr>repository = IDC, url = ''idc/icdc_GLIOMA01'', metadata = IDCMetadata 1\<rparr>,
           \<lparr>repository = TCIA, url = ''tcia/ICDC-GLIOMA01'',
             metadata = TCIAMetadata
               \<lparr>Collection = Some ''ICDC-GLIOMA01'', Aggregate_PatientID = 2,
                Aggregate_Modality = [''MR'', ''Histopathology''],
                Aggregate_BodyPartExamined = [''HEAD'', ''LEG''],
                Aggregate_ImageCount = Num 99\<rparr>\<rparr>],
          [\<lparr>collection_id = Some ''icdc_COTC007B'', description = Some ''a &amp;amp; b''\<rparr>,
           \<lparr>collection_id = Some ''icdc_GLIOMA01'', description = Some ''c''\<rparr>])"
  by (simp add: sample_simps eval_simps glioma_description_def match_annotation_def)

lemma sample_ids_present: "ids_present sample_idcCollections"
  by (simp add: ids_present_def sample_idcCollections_def)

lemma sample_descriptions_present: "descriptions_present sample_idcCollections"
  by (simp add: descriptions_present_def sample_idcCollections_def)

lemma sample_collectMappings:
  "collectMappings sample_env (Some sample_studies) sample_idcCollections sample_tciaCollections
     sample_tciaCollectionsData
   = Inr ([\<lparr>CRDCLinks =
             [\<lparr>repository = IDC, url = ''idc/icdc_COTC007B'', metadata = IDCMetadata 0\<rparr>,
              \<lparr>repository = TCIA, url = ''tcia/ICDC-COTC007B'',
                metadata = TCIAMetadata
                  \<lparr>Collection = Some ''ICDC-COTC007B'', Aggregate_PatientID = 2,
                   Aggregate_Modality = [''MR''], Aggregate_BodyPartExamined = [''HEAD'', ''LEG''],
                   Aggregate_ImageCount = Num 15\<rparr>\<rparr>],
            mapping_numberOfCRDCNodes = Some 3,
            mapping_numberOfImageCollections = Some 2,
            mapping_clinical_study_designation = ''COTC007B''\<rparr>],
          [\<lparr>collection_id = Some ''icdc_COTC007B'', description = Some ''a & b''\<rparr>,
           \<lparr>collection_id = Some ''icdc_GLIOMA01'', description = Some ''c''\<rparr>])"
  by (simp add: collectMappings_def sample_studies_def sample_simps eval_simps
        glioma_description_def match_annotation_def)

lemmas world_simps =
  sample_world_def sample_series_endpoint_def sample_studies_def
  getIcdcStudyData_def getIdcCollections_def getTciaCollections_def getTciaCollectionData_def
  getTciaCollectionsData_def mapExternalDataToStudies_def collectMappings_def
  glioma_description_def match_annotation_def

lemma sample_idc_descriptions_present: "idc_descriptions_present sample_world"
  by (simp add: idc_descriptions_present_def sample_world_def descriptions_present_def
        sample_idcCollections_def)

lemma sample_without_idc:
  "mapExternalDataToStudies sample_env
     (sample_world\<lparr>idc_collections_endpoint := Inl SyntaxError\<rparr>)
   = ([SyntaxError, FetchError],
      ReturnedMappings
        [\<lparr>CRDCLinks =
            [\<lparr>repository = TCIA, url = ''tcia/ICDC-COTC007B'',
              metadata = TCIAMetadata
                \<lparr>Collection = Some ''ICDC-COTC007B'', Aggregate_PatientID = 2,
                 Aggregate_Modality = [''MR''], Aggregate_BodyPartExamined = [''HEAD'', ''LEG''],
                 Aggregate_ImageCount = Num 15\<rparr>\<rparr>],
          mapping_numberOfCRDCNodes = Some 3,
          mapping_numberOfImageCollections = Some 2,
          mapping_clinical_study_designation = ''COTC007B''\<rparr>]
        [])"
  by (simp add: world_simps sample_simps eval_simps)

lemma sample_without_tcia:
  "mapExternalDataToStudies sample_env
     (sample_world\<lparr>tcia_collections_endpoint := Inl FetchError\<rparr>)
   = ([FetchError],
      ReturnedMappings
        [\<lparr>CRDCLinks =
            [\<lparr>repository = IDC, url = ''idc/icdc_COTC007B'', metadata = IDCMetadata 0\<rparr>],
          mapping_numberOfCRDCNodes = Some 3,
          mapping_numberOfImageCollections = Some 2,
          mapping_clinical_study_designation = ''COTC007B''\<rparr>]
        [\<lparr>collection_id = Some ''icdc_COTC007B'', description = Some ''a & b''\<rparr>,
         \<lparr>collection_id = Some ''icdc_GLIOMA01'', description = Some ''c''\<rparr>])"
  by (simp add: world_simps sample_simps eval_simps)

section \<open>The claims\<close>

text \<open>
  Claim C1. When the query to the ICDC backend fails (the request or the parsing of the
  answer throws), \<^verbatim>\<open>getIcdcStudyData\<close> logs the error and throws the error whose
  message is \<^verbatim>\<open>errorName.BENTO_BACKEND_NOT_CONNECTED\<close>; \<^verbatim>\<open>mapExternalDataToStudies\<close>
  catches it, logs it and hands it to its caller as its return value: no list of
  mappings is returned, and no other service was asked.
\<close>

theorem backend_failure_is_signalled:
  "bento_backend w = Inl error \<longrightarrow>
     getIcdcStudyData e w = ([error], Inl (Error (BENTO_BACKEND_NOT_CONNECTED e)))
   \<and> mapExternalDataToStudies e w
       = ([error, Error (BENTO_BACKEND_NOT_CONNECTED e)],
          ReturnedError (Error (BENTO_BACKEND_NOT_CONNECTED e)))
   \<and> (\<forall>ms cols. snd (mapExternalDataToStudies e w) \<noteq> ReturnedMappings ms cols)"
  by (simp add: getIcdcStudyData_def mapExternalDataToStudies_def)

theorem backend_failure_is_signalled_witness:
  "bento_backend (sample_world\<lparr>bento_backend := Inl FetchError\<rparr>) = Inl FetchError
   \<and> getIcdcStudyData sample_env (sample_world\<lparr>bento_backend := Inl FetchError\<rparr>)
       = ([FetchError], Inl (Error ''BENTO_BACKEND_NOT_CONNECTED''))
   \<and> mapExternalDataToStudies sample_env (sample_world\<lparr>bento_backend := Inl FetchError\<rparr>)
       = ([FetchError, Error ''BENTO_BACKEND_NOT_CONNECTED''],
          ReturnedError (Error ''BENTO_BACKEND_NOT_CONNECTED''))"
  using backend_failure_is_signalled
          [of "sample_world\<lparr>bento_backend := Inl FetchError\<rparr>" FetchError sample_env]
  by (simp add: sample_env_def)

text \<open>
  Claim C2. Whenever \<^verbatim>\<open>collectMappings\<close> returns, its result holds exactly one mapping
  for each study whose \<^verbatim>\<open>numberOfCRDCNodes\<close> is greater than 0, in the order of the
  studies, with the designation, the two counts and the match results of that study; a
  study whose count is zero or absent has no mapping, whatever its matches. It returns
  when the libraries keep their contract and the collections are well formed.
\<close>

theorem studies_with_nodes_are_mapped:
  "(\<forall>ms idcCollections'.
      collectMappings e (Some studies) idcCollections tciaCollections tciaCollectionsData
        = Inr (ms, idcCollections') \<longrightarrow>
      list_all2 (is_study_mapping e idcCollections tciaCollections tciaCollectionsData)
        (filter (\<lambda>s. greater_than_zero (numberOfCRDCNodes s)) studies) ms
    \<and> map mapping_clinical_study_designation ms
        = map clinical_study_designation
            (filter (\<lambda>s. greater_than_zero (numberOfCRDCNodes s)) studies))
   \<and> (library_contract e \<and> ids_present idcCollections \<and> descriptions_present idcCollections
        \<and> None \<notin> set tciaCollections \<longrightarrow>
        (\<exists>ms idcCollections'.
           collectMappings e (Some studies) idcCollections tciaCollections tciaCollectionsData
             = Inr (ms, idcCollections')))"
proof (intro conjI impI allI)
  fix ms idcCollections'
  assume "collectMappings e (Some studies) idcCollections tciaCollections tciaCollectionsData
            = Inr (ms, idcCollections')"
  then have "collectMappings_loop e studies idcCollections tciaCollections tciaCollectionsData []
               = Inr (ms, idcCollections')"
    by (simp add: collectMappings_def)
  from collectMappings_loop_Inr [OF this]
  show a: "list_all2 (is_study_mapping e idcCollections tciaCollections tciaCollectionsData)
          (filter (\<lambda>s. greater_than_zero (numberOfCRDCNodes s)) studies) ms"
    by simp
  have "list_all2 (\<lambda>s m. mapping_clinical_study_designation m = clinical_study_designation s)
          (filter (\<lambda>s. greater_than_zero (numberOfCRDCNodes s)) studies) ms"
    by (rule list_all2_mono [OF a]) (simp add: is_study_mapping_def)
  then show "map mapping_clinical_study_designation ms
        = map clinical_study_designation
            (filter (\<lambda>s. greater_than_zero (numberOfCRDCNodes s)) studies)"
    by (induction rule: list_all2_induct) auto
next
  assume "library_contract e \<and> ids_present idcCollections \<and> descriptions_present idcCollections
        \<and> None \<notin> set tciaCollections"
  then show "\<exists>ms idcCollections'.
           collectMappings e (Some studies) idcCollections tciaCollections tciaCollectionsData
             = Inr (ms, idcCollections')"
    using collectMappings_loop_returns [of e tciaCollections idcCollections studies
            tciaCollectionsData "[]"]
    by (simp add: collectMappings_def)
qed

text \<open>
  Of the three sample studies only the second has a node count above 0; the first has
  matches in both archives and the count 0, the third has no count.
\<close>

theorem studies_with_nodes_are_mapped_witness:
  "library_contract sample_env \<and> ids_present sample_idcCollections
   \<and> descriptions_present sample_idcCollections \<and> None \<notin> set sample_tciaCollections
   \<and> (\<exists>ms idcCollections'.
         collectMappings sample_env (Some sample_studies) sample_idcCollections
           sample_tciaCollections sample_tciaCollectionsData = Inr (ms, idcCollections')
       \<and> list_all2
           (is_study_mapping sample_env sample_idcCollections sample_tciaCollections
              sample_tciaCollectionsData) [sample_study] ms
       \<and> map mapping_clinical_study_designation ms = [''COTC007B''])"
proof -
  note t = studies_with_nodes_are_mapped [of sample_env sample_studies sample_idcCollections
             sample_tciaCollections sample_tciaCollectionsData]
  have n: "None \<notin> set sample_tciaCollections"
    by (simp add: sample_tciaCollections_def)
  have f: "filter (\<lambda>s. greater_than_zero (numberOfCRDCNodes s)) sample_studies = [sample_study]"
    by (simp add: sample_studies_def sample_study_def)
  have r: "library_contract sample_env \<and> ids_present sample_idcCollections
             \<and> descriptions_present sample_idcCollections \<and> None \<notin> set sample_tciaCollections"
    using library_contract_sample_env sample_ids_present sample_descriptions_present n
    by (intro conjI)
  from mp [OF conjunct2 [OF t] r] obtain ms idcCollections' where
    c: "collectMappings sample_env (Some sample_studies) sample_idcCollections
          sample_tciaCollections sample_tciaCollectionsData = Inr (ms, idcCollections')"
    by (elim exE)
  from conjunct1 [OF t, rule_format, OF c]
  have "list_all2
           (is_study_mapping sample_env sample_idcCollections sample_tciaCollections
              sample_tciaCollectionsData) [sample_study] ms"
       and "map mapping_clinical_study_designation ms = [''COTC007B'']"
    by (simp_all only: f) (simp_all add: sample_study_def)
  with c have "\<exists>ms idcCollections'.
         collectMappings sample_env (Some sample_studies) sample_idcCollections
           sample_tciaCollections sample_tciaCollectionsData = Inr (ms, idcCollections')
       \<and> list_all2
           (is_study_mapping sample_env sample_idcCollections sample_tciaCollections
              sample_tciaCollectionsData) [sample_study] ms
       \<and> map mapping_clinical_study_designation ms = [''COTC007B'']"
    by (intro exI [of _ ms] exI [of _ idcCollections']) (intro conjI; assumption)
  with r show ?thesis by simp
qed

text \<open>
  Claim C3. \<^verbatim>\<open>mapMatchesToStudy\<close> returns (when the libraries keep their contract and
  the collections are well formed), and what it returns is the concatenation of an IDC
  entry for every IDC match, in order, and a TCIA entry for every TCIA match whose series
  list is present and not empty, in order: a TCIA match with an empty or missing series
  list has no entry.
\<close>

theorem matches_concatenated:
  "(library_contract e \<and> ids_present idcCollections \<and> descriptions_present idcCollections
      \<and> None \<notin> set tciaCollections \<longrightarrow>
      (\<exists>links idcCollections'.
         mapMatchesToStudy e icdcStudy idcCollections tciaCollections tciaCollectionsData
           = Inr (links, idcCollections')))
   \<and> (\<forall>links idcCollections'.
         mapMatchesToStudy e icdcStudy idcCollections tciaCollections tciaCollectionsData
           = Inr (links, idcCollections') \<longrightarrow>
         (\<exists>idcMatches tciaMatches A B.
            search e (clinical_study_designation icdcStudy) (map collection_id idcCollections)
              = Inr idcMatches
          \<and> search e (clinical_study_designation icdcStudy) tciaCollections = Inr tciaMatches
          \<and> links = A @ B
          \<and> list_all2 (is_idc_entry e idcCollections) idcMatches A
          \<and> list_all2 (is_tcia_entry e tciaCollectionsData icdcStudy)
               (filter (has_series tciaCollectionsData) tciaMatches) B))"
proof (intro conjI impI allI)
  assume "library_contract e \<and> ids_present idcCollections \<and> descriptions_present idcCollections
            \<and> None \<notin> set tciaCollections"
  then show "\<exists>links idcCollections'.
      mapMatchesToStudy e icdcStudy idcCollections tciaCollections tciaCollectionsData
        = Inr (links, idcCollections')"
    using mapMatchesToStudy_returns [of e idcCollections tciaCollections icdcStudy tciaCollectionsData]
    by blast
next
  fix links idcCollections'
  assume "mapMatchesToStudy e icdcStudy idcCollections tciaCollections tciaCollectionsData
            = Inr (links, idcCollections')"
  from mapMatchesToStudy_Inr [OF this]
  show "\<exists>idcMatches tciaMatches A B.
            search e (clinical_study_designation icdcStudy) (map collection_id idcCollections)
              = Inr idcMatches
          \<and> search e (clinical_study_designation icdcStudy) tciaCollections = Inr tciaMatches
          \<and> links = A @ B
          \<and> list_all2 (is_idc_entry e idcCollections) idcMatches A
          \<and> list_all2 (is_tcia_entry e tciaCollectionsData icdcStudy)
               (filter (has_series tciaCollectionsData) tciaMatches) B"
    by blast
qed

text \<open>
  On the sample data the study has one IDC match and three TCIA matches, of which the
  second has an empty series list and the third none: two entries are returned.
\<close>

theorem matches_concatenated_witness:
  "library_contract sample_env \<and> ids_present sample_idcCollections
   \<and> descriptions_present sample_idcCollections \<and> None \<notin> set sample_tciaCollections
   \<and> mapMatchesToStudy sample_env sample_study sample_idcCollections sample_tciaCollections
        sample_tciaCollectionsData
      = Inr ([\<lparr>repository = IDC, url = ''idc/icdc_COTC007B'', metadata = IDCMetadata 0\<rparr>,
              \<lparr>repository = TCIA, url = ''tcia/ICDC-COTC007B'',
                metadata = TCIAMetadata
                  \<lparr>Collection = Some ''ICDC-COTC007B'', Aggregate_PatientID = 2,
                   Aggregate_Modality = [''MR''], Aggregate_BodyPartExamined = [''HEAD'', ''LEG''],
                   Aggregate_ImageCount = Num 15\<rparr>\<rparr>],
             [\<lparr>collection_id = Some ''icdc_COTC007B'', description = Some ''a &amp; b''\<rparr>,
              \<lparr>collection_id = Some ''icdc_GLIOMA01'', description = Some ''c''\<rparr>])
   \<and> (\<exists>A B.
         [\<lparr>repository = IDC, url = ''idc/icdc_COTC007B'', metadata = IDCMetadata 0\<rparr>,
          \<lparr>repository = TCIA, url = ''tcia/ICDC-COTC007B'',
            metadata = TCIAMetadata
              \<lparr>Collection = Some ''ICDC-COTC007B'', Aggregate_PatientID = 2,
               Aggregate_Modality = [''MR''], Aggregate_BodyPartExamined = [''HEAD'', ''LEG''],
               Aggregate_ImageCount = Num 15\<rparr>\<rparr>] = A @ B
       \<and> list_all2 (is_idc_entry sample_env sample_idcCollections) [Some ''icdc_COTC007B''] A
       \<and> list_all2 (is_tcia_entry sample_env sample_tciaCollectionsData sample_study)
            [Some ''ICDC-COTC007B''] B)"
proof -
  have s1: "search sample_env (clinical_study_designation sample_study)
              (map collection_id sample_idcCollections) = Inr [Some ''icdc_COTC007B'']"
    by (simp add: sample_simps)
  have s2: "search sample_env (clinical_study_designation sample_study) sample_tciaCollections
              = Inr [Some ''ICDC-COTC007B'', Some ''ICDC-COTC007B-2'', Some ''ICDC-COTC007B-3'']"
    by (simp add: sample_simps)
  have f: "filter (has_series sample_tciaCollectionsData)
             [Some ''ICDC-COTC007B'', Some ''ICDC-COTC007B-2'', Some ''ICDC-COTC007B-3'']
           = [Some ''ICDC-COTC007B'']"
    by (simp add: sample_simps has_series_def)
  have n: "None \<notin> set sample_tciaCollections"
    by (simp add: sample_tciaCollections_def)
  let ?links = "[\<lparr>repository = IDC, url = ''idc/icdc_COTC007B'', metadata = IDCMetadata 0\<rparr>,
          \<lparr>repository = TCIA, url = ''tcia/ICDC-COTC007B'',
            metadata = TCIAMetadata
              \<lparr>Collection = Some ''ICDC-COTC007B'', Aggregate_PatientID = 2,
               Aggregate_Modality = [''MR''], Aggregate_BodyPartExamined = [''HEAD'', ''LEG''],
               Aggregate_ImageCount = Num 15\<rparr>\<rparr>]"
  from matches_concatenated [of sample_env sample_idcCollections sample_tciaCollections
         sample_study sample_tciaCollectionsData] sample_mapMatchesToStudy
  obtain im tm A B where
    "search sample_env (clinical_study_designation sample_study)
       (map collection_id sample_idcCollections) = Inr im"
    "search sample_env (clinical_study_designation sample_study) sample_tciaCollections = Inr tm"
    "?links = A @ B"
    "list_all2 (is_idc_entry sample_env sample_idcCollections) im A"
    "list_all2 (is_tcia_entry sample_env sample_tciaCollectionsData sample_study)
       (filter (has_series sample_tciaCollectionsData) tm) B"
    by blast
  with s1 s2 f have "\<exists>A B. ?links = A @ B
       \<and> list_all2 (is_idc_entry sample_env sample_idcCollections) [Some ''icdc_COTC007B''] A
       \<and> list_all2 (is_tcia_entry sample_env sample_tciaCollectionsData sample_study)
            [Some ''ICDC-COTC007B''] B"
    by (intro exI [of _ A] exI [of _ B]) (simp del: filter.simps)
  with library_contract_sample_env sample_ids_present sample_descriptions_present n
    sample_mapMatchesToStudy
  show ?thesis by blast
qed

text \<open>
  Claim C4, as amended. For a collection whose series list is present and a study other
  than GLIOMA01, \<^verbatim>\<open>getTciaCollectionMetadata\<close> returns; \<open>Aggregate_PatientID\<close> is the
  number of distinct \<^verbatim>\<open>PatientID\<close> values; \<open>Aggregate_ImageCount\<close> is \<^verbatim>\<open>NaN\<close> when
  an \<^verbatim>\<open>ImageCount\<close> does not parse, and it is the sum of the integers that
  \<^verbatim>\<open>parseInt\<close> gives for the \<^verbatim>\<open>ImageCount\<close> strings whenever the absolute values of
  these integers add up to at most \<open>2 ^ 53\<close>.
\<close>

theorem aggregate_counts:
  assumes "tciaCollectionsData (to_string collectionId) = Some series_list"
      and "clinical_study_designation icdcStudy \<noteq> ''GLIOMA01''"
  shows "\<exists>m. getTciaCollectionMetadata collectionId tciaCollectionsData icdcStudy = Inr m
           \<and> Aggregate_PatientID m = card (set (map PatientID series_list))
           \<and> (NaN \<in> set (map (\<lambda>s. parseInt (ImageCount s)) series_list) \<longrightarrow>
                Aggregate_ImageCount m = NaN)
           \<and> (\<forall>ns. map (\<lambda>s. parseInt (ImageCount s)) series_list = map Num ns
                    \<and> sum_list (map abs ns) \<le> 2 ^ 53 \<longrightarrow>
                  Aggregate_ImageCount m = Num (sum_list ns))"
  using assms
  by (simp add: getTciaCollectionMetadata_def Let_def length_new_Set foldl_js_add_NaN_mem
        totalImages_exact)

text \<open>
  The two examples of the specification: image counts \<^verbatim>\<open>"10"\<close> and \<^verbatim>\<open>"5"\<close> give 15,
  patients \<^verbatim>\<open>p1, p1, p2\<close> give 2.
\<close>

theorem aggregate_counts_witness:
  "(\<exists>m. getTciaCollectionMetadata (Some ''ICDC-A'')
          [''ICDC-A'' \<mapsto>
             [\<lparr>ImageCount = ''10'', PatientID = ''p1'', Modality = ''MR'', BodyPartExamined = ''HEAD''\<rparr>,
              \<lparr>ImageCount = ''5'', PatientID = ''p2'', Modality = ''CT'', BodyPartExamined = ''HEAD''\<rparr>]]
          \<lparr>clinical_study_designation = ''COTC007B'', numberOfImageCollections = Some 1,
            numberOfCRDCNodes = Some 2\<rparr> = Inr m
        \<and> Aggregate_ImageCount m = Num 15)
   \<and> (\<exists>m. getTciaCollectionMetadata (Some ''ICDC-B'')
          [''ICDC-B'' \<mapsto>
             [\<lparr>ImageCount = ''1'', PatientID = ''p1'', Modality = ''MR'', BodyPartExamined = ''HEAD''\<rparr>,
              \<lparr>ImageCount = ''1'', PatientID = ''p1'', Modality = ''MR'', BodyPartExamined = ''HEAD''\<rparr>,
              \<lparr>ImageCount = ''1'', PatientID = ''p2'', Modality = ''MR'', BodyPartExamined = ''HEAD''\<rparr>]]
          \<lparr>clinical_study_designation = ''COTC007B'', numberOfImageCollections = Some 1,
            numberOfCRDCNodes = Some 2\<rparr> = Inr m
        \<and> Aggregate_PatientID m = 2)"
proof -
  let ?st = "\<lparr>clinical_study_designation = ''COTC007B'', numberOfImageCollections = Some 1,
              numberOfCRDCNodes = Some 2\<rparr>"
  let ?a = "[\<lparr>ImageCount = ''10'', PatientID = ''p1'', Modality = ''MR'', BodyPartExamined = ''HEAD''\<rparr>,
             \<lparr>ImageCount = ''5'', PatientID = ''p2'', Modality = ''CT'', BodyPartExamined = ''HEAD''\<rparr>]"
  let ?b = "[\<lparr>ImageCount = ''1'', PatientID = ''p1'', Modality = ''MR'', BodyPartExamined = ''HEAD''\<rparr>,
             \<lparr>ImageCount = ''1'', PatientID = ''p1'', Modality = ''MR'', BodyPartExamined = ''HEAD''\<rparr>,
             \<lparr>ImageCount = ''1'', PatientID = ''p2'', Modality = ''MR'', BodyPartExamined = ''HEAD''\<rparr>]"
  have pa: "map (\<lambda>s. parseInt (ImageCount s)) ?a = map Num [10, 5]"
    by (simp add: parseInt_simps)
  have ba: "sum_list (map abs [10, 5 :: int]) \<le> 2 ^ 53" by simp
  have cb: "card (set (map PatientID ?b)) = 2"
    by (simp add: card_insert_if)
  from aggregate_counts [of "[''ICDC-A'' \<mapsto> ?a]" "Some ''ICDC-A''" ?a ?st]
  obtain m where m: "getTciaCollectionMetadata (Some ''ICDC-A'') [''ICDC-A'' \<mapsto> ?a] ?st = Inr m"
    and s: "\<forall>ns. map (\<lambda>s. parseInt (ImageCount s)) ?a = map Num ns
                 \<and> sum_list (map abs ns) \<le> 2 ^ 53 \<longrightarrow> Aggregate_ImageCount m = Num (sum_list ns)"
    by auto
  from s pa ba have "Aggregate_ImageCount m = Num (sum_list [10, 5])" by blast
  with m have "\<exists>m. getTciaCollectionMetadata (Some ''ICDC-A'') [''ICDC-A'' \<mapsto> ?a] ?st = Inr m
          \<and> Aggregate_ImageCount m = Num 15"
    by simp
  moreover
  have "\<exists>m. getTciaCollectionMetadata (Some ''ICDC-B'') [''ICDC-B'' \<mapsto> ?b] ?st = Inr m
          \<and> Aggregate_PatientID m = 2"
    using aggregate_counts [of "[''ICDC-B'' \<mapsto> ?b]" "Some ''ICDC-B''" ?b ?st] cb by auto
  ultimately show ?thesis by blast
qed

text \<open>
  The claim as stated fails once a running total leaves the integers that are doubles. The
  counts \<^verbatim>\<open>"9007199254740992"\<close> (which is \<open>2 ^ 53\<close>) and \<^verbatim>\<open>"1"\<close> both parse to
  themselves, and their sum \<open>2 ^ 53 + 1\<close> is rounded to \<open>2 ^ 53\<close>.
\<close>

theorem aggregate_counts_counterexample:
  "getTciaCollectionMetadata (Some ''ICDC-A'')
     [''ICDC-A'' \<mapsto>
        [\<lparr>ImageCount = ''9007199254740992'', PatientID = ''p1'', Modality = ''MR'',
          BodyPartExamined = ''HEAD''\<rparr>,
         \<lparr>ImageCount = ''1'', PatientID = ''p2'', Modality = ''MR'', BodyPartExamined = ''HEAD''\<rparr>]]
     \<lparr>clinical_study_designation = ''COTC007B'', numberOfImageCollections = Some 1,
       numberOfCRDCNodes = Some 2\<rparr>
   = Inr \<lparr>Collection = Some ''ICDC-A'', Aggregate_PatientID = 2,
          Aggregate_Modality = [''MR''], Aggregate_BodyPartExamined = [''HEAD''],
          Aggregate_ImageCount = Num 9007199254740992\<rparr>
   \<and> parseInt ''9007199254740992'' = Num 9007199254740992
   \<and> parseInt ''1'' = Num 1
   \<and> (9007199254740992 :: int) + 1 \<noteq> 9007199254740992"
proof -
  have l: "bit_length 9007199254740993 = 54"
    by (simp add: bit_length.simps)
  have r: "round_to_double 9007199254740993 = Num 9007199254740992"
    unfolding round_to_double_def Let_def by (simp add: l)
  show ?thesis
    by (simp add: getTciaCollectionMetadata_def Let_def new_Set_def set_add_def parseInt_simps r)
qed

text \<open>
  Claim C5, as amended. For the study GLIOMA01 the metadata built is the metadata any other
  study gets for the collection, with \<^verbatim>\<open>"Histopathology"\<close> appended to the modalities
  (the distinct modalities of the series) and with 84 added to the image count by a
  number addition; the image count is the sum of the parsed counts plus exactly 84
  whenever the absolute values of the parsed counts and 84 add up to at most \<open>2 ^ 53\<close>.
  For a study other than GLIOMA01 the metadata does not depend on the study: nothing is
  appended and nothing added.
\<close>

theorem glioma_adjustment:
  assumes "tciaCollectionsData (to_string collectionId) = Some series_list"
      and "clinical_study_designation other \<noteq> ''GLIOMA01''"
  shows "\<exists>m u. getTciaCollectionMetadata collectionId tciaCollectionsData icdcStudy = Inr m
           \<and> getTciaCollectionMetadata collectionId tciaCollectionsData other = Inr u
           \<and> Aggregate_Modality u = first_seen (map Modality series_list)
           \<and> (clinical_study_designation icdcStudy = ''GLIOMA01'' \<longrightarrow>
                ''Histopathology'' \<in> set (Aggregate_Modality m)
              \<and> Aggregate_Modality m = Aggregate_Modality u @ [''Histopathology'']
              \<and> Aggregate_ImageCount m = js_add (Aggregate_ImageCount u) (Num 84)
              \<and> (\<forall>ns. map (\<lambda>s. parseInt (ImageCount s)) series_list = map Num ns
                       \<and> sum_list (map abs ns) + 84 \<le> 2 ^ 53 \<longrightarrow>
                     Aggregate_ImageCount u = Num (sum_list ns)
                   \<and> Aggregate_ImageCount m = Num (sum_list ns + 84)))
           \<and> (clinical_study_designation icdcStudy \<noteq> ''GLIOMA01'' \<longrightarrow> m = u)"
proof -
  have e: "Aggregate_ImageCount u = Num (sum_list ns)
             \<and> js_add (Aggregate_ImageCount u) (Num 84) = Num (sum_list ns + 84)"
    if u: "getTciaCollectionMetadata collectionId tciaCollectionsData other = Inr u"
      and p: "map (\<lambda>s. parseInt (ImageCount s)) series_list = map Num ns"
      and b: "sum_list (map abs ns) + 84 \<le> 2 ^ 53" for u ns
  proof -
    from b have "sum_list (map abs ns) \<le> 2 ^ 53" by simp
    from totalImages_exact [OF p this] u assms
    have t: "Aggregate_ImageCount u = Num (sum_list ns)"
      by (auto simp: getTciaCollectionMetadata_def Let_def)
    from sum_list_abs [of ns] b have "\<bar>sum_list ns + 84\<bar> \<le> 2 ^ 53" by simp
    from round_to_double_exact [OF this] t show ?thesis by simp
  qed
  from assms obtain u where
    u: "getTciaCollectionMetadata collectionId tciaCollectionsData other = Inr u"
    by (simp add: getTciaCollectionMetadata_def Let_def)
  have "\<exists>m. getTciaCollectionMetadata collectionId tciaCollectionsData icdcStudy = Inr m"
    using assms(1)
    by (cases "clinical_study_designation icdcStudy = ''GLIOMA01''")
       (simp_all add: getTciaCollectionMetadata_def Let_def)
  then obtain m where
    m: "getTciaCollectionMetadata collectionId tciaCollectionsData icdcStudy = Inr m" by blast
  from u assms have mu: "Aggregate_Modality u = first_seen (map Modality series_list)"
    by (auto simp: getTciaCollectionMetadata_def Let_def new_Set_first_seen)
  have g: "Aggregate_Modality m = Aggregate_Modality u @ [''Histopathology'']
         \<and> Aggregate_ImageCount m = js_add (Aggregate_ImageCount u) (Num 84)"
    if "clinical_study_designation icdcStudy = ''GLIOMA01''"
    using that m u assms by (auto simp: getTciaCollectionMetadata_def Let_def)
  have o: "m = u" if "clinical_study_designation icdcStudy \<noteq> ''GLIOMA01''"
    using that m u assms by (auto simp: getTciaCollectionMetadata_def Let_def)
  have b: "\<forall>ns. map (\<lambda>s. parseInt (ImageCount s)) series_list = map Num ns
                   \<and> sum_list (map abs ns) + 84 \<le> 2 ^ 53 \<longrightarrow>
                 Aggregate_ImageCount u = Num (sum_list ns)
               \<and> Aggregate_ImageCount m = Num (sum_list ns + 84)"
    if "clinical_study_designation icdcStudy = ''GLIOMA01''"
  proof (intro allI impI)
    fix ns
    assume "map (\<lambda>s. parseInt (ImageCount s)) series_list = map Num ns
              \<and> sum_list (map abs ns) + 84 \<le> 2 ^ 53"
    then have "Aggregate_ImageCount u = Num (sum_list ns)
             \<and> js_add (Aggregate_ImageCount u) (Num 84) = Num (sum_list ns + 84)"
      using e [OF u, of ns] by blast
    then have 1: "Aggregate_ImageCount u = Num (sum_list ns)"
      and 2: "js_add (Aggregate_ImageCount u) (Num 84) = Num (sum_list ns + 84)" by blast+
    from g [OF that] have 3: "Aggregate_ImageCount m = js_add (Aggregate_ImageCount u) (Num 84)"
      by blast
    from 3 2 have "Aggregate_ImageCount m = Num (sum_list ns + 84)" by (rule trans)
    with 1 show "Aggregate_ImageCount u = Num (sum_list ns)
            \<and> Aggregate_ImageCount m = Num (sum_list ns + 84)" by (rule conjI)
  qed
  have h: "''Histopathology'' \<in> set (Aggregate_Modality m)"
    if "clinical_study_designation icdcStudy = ''GLIOMA01''"
    using g [OF that] by simp
  show ?thesis
  proof (rule exI [of _ m], rule exI [of _ u], intro conjI impI)
    show "getTciaCollectionMetadata collectionId tciaCollectionsData icdcStudy = Inr m" by (rule m)
    show "getTciaCollectionMetadata collectionId tciaCollectionsData other = Inr u" by (rule u)
    show "Aggregate_Modality u = first_seen (map Modality series_list)" by (rule mu)
  qed (use g h b o in blast)+
qed

theorem glioma_adjustment_witness:
  "(\<exists>m. getTciaCollectionMetadata (Some ''ICDC-Glioma'')
          [''ICDC-Glioma'' \<mapsto>
             [\<lparr>ImageCount = ''10'', PatientID = ''p1'', Modality = ''MR'', BodyPartExamined = ''HEAD''\<rparr>,
              \<lparr>ImageCount = ''5'', PatientID = ''p2'', Modality = ''CT'', BodyPartExamined = ''HEAD''\<rparr>]]
          \<lparr>clinical_study_designation = ''GLIOMA01'', numberOfImageCollections = Some 1,
            numberOfCRDCNodes = Some 2\<rparr> = Inr m
        \<and> Aggregate_Modality m = [''MR'', ''CT'', ''Histopathology'']
        \<and> Aggregate_ImageCount m = Num 99)
   \<and> (\<exists>m. getTciaCollectionMetadata (Some ''ICDC-Glioma'')
          [''ICDC-Glioma'' \<mapsto>
             [\<lparr>ImageCount = ''10'', PatientID = ''p1'', Modality = ''MR'', BodyPartExamined = ''HEAD''\<rparr>,
              \<lparr>ImageCount = ''5'', PatientID = ''p2'', Modality = ''CT'', BodyPartExamined = ''HEAD''\<rparr>]]
          \<lparr>clinical_study_designation = ''GLIOMA02'', numberOfImageCollections = Some 1,
            numberOfCRDCNodes = Some 2\<rparr> = Inr m
        \<and> Aggregate_Modality m = [''MR'', ''CT'']
        \<and> Aggregate_ImageCount m = Num 15)"
proof -
  let ?g = "\<lparr>clinical_study_designation = ''GLIOMA01'', numberOfImageCollections = Some 1,
             numberOfCRDCNodes = Some 2\<rparr>"
  let ?o = "\<lparr>clinical_study_designation = ''GLIOMA02'', numberOfImageCollections = Some 1,
             numberOfCRDCNodes = Some 2\<rparr>"
  let ?a = "[\<lparr>ImageCount = ''10'', PatientID = ''p1'', Modality = ''MR'', BodyPartExamined = ''HEAD''\<rparr>,
             \<lparr>ImageCount = ''5'', PatientID = ''p2'', Modality = ''CT'', BodyPartExamined = ''HEAD''\<rparr>]"
  have pa: "map (\<lambda>s. parseInt (ImageCount s)) ?a = map Num [10, 5]"
    by (simp add: parseInt_simps)
  have ba: "sum_list (map abs [10, 5 :: int]) + 84 \<le> 2 ^ 53" by simp
  have l: "[''ICDC-Glioma'' \<mapsto> ?a] (to_string (Some ''ICDC-Glioma'')) = Some ?a" by simp
  have d: "clinical_study_designation ?o \<noteq> ''GLIOMA01''" by simp
  from glioma_adjustment [of "[''ICDC-Glioma'' \<mapsto> ?a]" "Some ''ICDC-Glioma''" ?a ?o ?g, OF l d]
  obtain m u where
    m: "getTciaCollectionMetadata (Some ''ICDC-Glioma'') [''ICDC-Glioma'' \<mapsto> ?a] ?g = Inr m"
    and u: "getTciaCollectionMetadata (Some ''ICDC-Glioma'') [''ICDC-Glioma'' \<mapsto> ?a] ?o = Inr u"
    and mu: "Aggregate_Modality u = first_seen (map Modality ?a)"
    and mm: "Aggregate_Modality m = Aggregate_Modality u @ [''Histopathology'']"
    and s: "\<forall>ns. map (\<lambda>s. parseInt (ImageCount s)) ?a = map Num ns
                 \<and> sum_list (map abs ns) + 84 \<le> 2 ^ 53 \<longrightarrow>
               Aggregate_ImageCount u = Num (sum_list ns)
             \<and> Aggregate_ImageCount m = Num (sum_list ns + 84)"
    by auto
  from s pa ba have "Aggregate_ImageCount u = Num (sum_list [10, 5])
                   \<and> Aggregate_ImageCount m = Num (sum_list [10, 5] + 84)" by blast
  with m u mu mm show ?thesis by simp
qed

text \<open>
  The claim as stated fails where adding 84 rounds. The count
  \<^verbatim>\<open>"9007199254740991"\<close> (which is \<open>2 ^ 53 - 1\<close>) parses to itself; with 84 added the
  exact sum 9007199254741075 is not a double, and the image count is 9007199254741076.
\<close>

theorem glioma_adjustment_counterexample:
  "getTciaCollectionMetadata (Some ''ICDC-Glioma'')
     [''ICDC-Glioma'' \<mapsto>
        [\<lparr>ImageCount = ''9007199254740991'', PatientID = ''p1'', Modality = ''MR'',
          BodyPartExamined = ''HEAD''\<rparr>]]
     \<lparr>clinical_study_designation = ''GLIOMA01'', numberOfImageCollections = Some 1,
       numberOfCRDCNodes = Some 2\<rparr>
   = Inr \<lparr>Collection = Some ''ICDC-Glioma'', Aggregate_PatientID = 1,
          Aggregate_Modality = [''MR'', ''Histopathology''],
          Aggregate_BodyPartExamined = [''HEAD''],
          Aggregate_ImageCount = Num 9007199254741076\<rparr>
   \<and> parseInt ''9007199254740991'' = Num 9007199254740991
   \<and> (9007199254740991 :: int) + 84 \<noteq> 9007199254741076"
proof -
  have l: "bit_length 9007199254741075 = 54"
    by (simp add: bit_length.simps)
  have r: "round_to_double 9007199254741075 = Num 9007199254741076"
    unfolding round_to_double_def Let_def by (simp add: l)
  show ?thesis
    by (simp add: getTciaCollectionMetadata_def Let_def new_Set_def set_add_def parseInt_simps r)
qed

text \<open>
  Claim C6, as amended. The metadata of every TCIA entry that \<^verbatim>\<open>mapMatchesToStudy\<close>
  returns is built from a series list: its body parts are the distinct body parts of the
  series in first-seen order, for every study; its modalities are the distinct modalities
  of the series in first-seen order for every study but GLIOMA01; for GLIOMA01 they are
  these followed by \<^verbatim>\<open>"Histopathology"\<close>, which is a list of distinct values exactly when
  no series has that modality.
\<close>

theorem tcia_entry_aggregates:
  assumes "mapMatchesToStudy e icdcStudy idcCollections tciaCollections tciaCollectionsData
             = Inr (links, idcCollections')"
      and "l \<in> set links" and "repository l = TCIA"
  shows "\<exists>md match series_list.
           metadata l = TCIAMetadata md
         \<and> Collection md = match
         \<and> url l = TCIA_COLLECTION_BASE_URL e @ to_string match
         \<and> tciaCollectionsData (to_string match) = Some series_list
         \<and> Aggregate_BodyPartExamined md = first_seen (map BodyPartExamined series_list)
         \<and> distinct (Aggregate_BodyPartExamined md)
         \<and> (clinical_study_designation icdcStudy \<noteq> ''GLIOMA01'' \<longrightarrow>
              Aggregate_Modality md = first_seen (map Modality series_list)
            \<and> distinct (Aggregate_Modality md))
         \<and> (clinical_study_designation icdcStudy = ''GLIOMA01'' \<longrightarrow>
              Aggregate_Modality md = first_seen (map Modality series_list) @ [''Histopathology'']
            \<and> (distinct (Aggregate_Modality md)
                 \<longleftrightarrow> ''Histopathology'' \<notin> set (map Modality series_list)))"
proof -
  from mapMatchesToStudy_Inr [OF assms(1)] obtain im tm A B where
    l: "links = A @ B" and a: "list_all2 (is_idc_entry e idcCollections) im A"
    and b: "list_all2 (is_tcia_entry e tciaCollectionsData icdcStudy)
              (filter (has_series tciaCollectionsData) tm) B" by blast
  have "l \<notin> set A"
    using list_all2_set_left [OF a, of l] assms(3) by (auto simp: is_idc_entry_def)
  with l assms(2) have "l \<in> set B" by simp
  from list_all2_set_left [OF b this] obtain match where
    h: "has_series tciaCollectionsData match"
    and t: "is_tcia_entry e tciaCollectionsData icdcStudy match l" by auto
  from t obtain md where m: "metadata l = TCIAMetadata md"
    and g: "getTciaCollectionMetadata match tciaCollectionsData icdcStudy = Inr md"
    and u: "url l = TCIA_COLLECTION_BASE_URL e @ to_string match"
    by (cases "metadata l") (auto simp: is_tcia_entry_def)
  from h obtain series_list where s: "tciaCollectionsData (to_string match) = Some series_list"
    by (auto simp: has_series_def split: option.splits)
  from g s have
    "Collection md = match"
    "Aggregate_BodyPartExamined md = first_seen (map BodyPartExamined series_list)"
    "clinical_study_designation icdcStudy \<noteq> ''GLIOMA01'' \<Longrightarrow>
       Aggregate_Modality md = first_seen (map Modality series_list)"
    "clinical_study_designation icdcStudy = ''GLIOMA01'' \<Longrightarrow>
       Aggregate_Modality md = first_seen (map Modality series_list) @ [''Histopathology'']"
    by (auto simp: getTciaCollectionMetadata_def Let_def new_Set_first_seen split: if_splits)
  with m s u show ?thesis
    by (intro exI [of _ md] exI [of _ match] exI [of _ series_list])
       (auto simp: distinct_first_seen set_first_seen)
qed

theorem tcia_entry_aggregates_witness:
  "(\<exists>md series_list.
      TCIAMetadata
        \<lparr>Collection = Some ''ICDC-COTC007B'', Aggregate_PatientID = 2,
         Aggregate_Modality = [''MR''], Aggregate_BodyPartExamined = [''HEAD'', ''LEG''],
         Aggregate_ImageCount = Num 15\<rparr> = TCIAMetadata md
    \<and> sample_tciaCollectionsData ''ICDC-COTC007B'' = Some series_list
    \<and> Aggregate_BodyPartExamined md = first_seen (map BodyPartExamined series_list)
    \<and> distinct (Aggregate_BodyPartExamined md)
    \<and> Aggregate_Modality md = first_seen (map Modality series_list)
    \<and> distinct (Aggregate_Modality md))
   \<and> (\<exists>md series_list.
      TCIAMetadata
        \<lparr>Collection = Some ''ICDC-GLIOMA01'', Aggregate_PatientID = 2,
         Aggregate_Modality = [''MR'', ''Histopathology''],
         Aggregate_BodyPartExamined = [''HEAD'', ''LEG''],
         Aggregate_ImageCount = Num 99\<rparr> = TCIAMetadata md
    \<and> sample_tciaCollectionsData ''ICDC-GLIOMA01'' = Some series_list
    \<and> Aggregate_BodyPartExamined md = first_seen (map BodyPartExamined series_list)
    \<and> distinct (Aggregate_BodyPartExamined md)
    \<and> Aggregate_Modality md = first_seen (map Modality series_list) @ [''Histopathology'']
    \<and> distinct (Aggregate_Modality md))"
proof (rule conjI)
  show "\<exists>md series_list.
      TCIAMetadata
        \<lparr>Collection = Some ''ICDC-COTC007B'', Aggregate_PatientID = 2,
         Aggregate_Modality = [''MR''], Aggregate_BodyPartExamined = [''HEAD'', ''LEG''],
         Aggregate_ImageCount = Num 15\<rparr> = TCIAMetadata md
    \<and> sample_tciaCollectionsData ''ICDC-COTC007B'' = Some series_list
    \<and> Aggregate_BodyPartExamined md = first_seen (map BodyPartExamined series_list)
    \<and> distinct (Aggregate_BodyPartExamined md)
    \<and> Aggregate_Modality md = first_seen (map Modality series_list)
    \<and> distinct (Aggregate_Modality md)"
    using tcia_entry_aggregates [OF sample_mapMatchesToStudy,
          of "\<lparr>repository = TCIA, url = ''tcia/ICDC-COTC007B'',
                metadata = TCIAMetadata
                  \<lparr>Collection = Some ''ICDC-COTC007B'', Aggregate_PatientID = 2,
                   Aggregate_Modality = [''MR''], Aggregate_BodyPartExamined = [''HEAD'', ''LEG''],
                   Aggregate_ImageCount = Num 15\<rparr>\<rparr>"]
    by (simp add: sample_study_def sample_env_def)
  show "\<exists>md series_list.
      TCIAMetadata
        \<lparr>Collection = Some ''ICDC-GLIOMA01'', Aggregate_PatientID = 2,
         Aggregate_Modality = [''MR'', ''Histopathology''],
         Aggregate_BodyPartExamined = [''HEAD'', ''LEG''],
         Aggregate_ImageCount = Num 99\<rparr> = TCIAMetadata md
    \<and> sample_tciaCollectionsData ''ICDC-GLIOMA01'' = Some series_list
    \<and> Aggregate_BodyPartExamined md = first_seen (map BodyPartExamined series_list)
    \<and> distinct (Aggregate_BodyPartExamined md)
    \<and> Aggregate_Modality md = first_seen (map Modality series_list) @ [''Histopathology'']
    \<and> distinct (Aggregate_Modality md)"
    using tcia_entry_aggregates [OF sample_mapMatchesToStudy_glioma,
          of "\<lparr>repository = TCIA, url = ''tcia/ICDC-GLIOMA01'',
                metadata = TCIAMetadata
                  \<lparr>Collection = Some ''ICDC-GLIOMA01'', Aggregate_PatientID = 2,
                   Aggregate_Modality = [''MR'', ''Histopathology''],
                   Aggregate_BodyPartExamined = [''HEAD'', ''LEG''],
                   Aggregate_ImageCount = Num 99\<rparr>\<rparr>"]
    by (simp add: sample_env_def) blast
qed

text \<open>
  The claim as stated fails for GLIOMA01 when a series of the collection already has the
  modality \<^verbatim>\<open>"Histopathology"\<close>: the value is pushed after the set was spread, and
  appears twice.
\<close>

theorem tcia_entry_aggregates_counterexample:
  "mapMatchesToStudy sample_env
     \<lparr>clinical_study_designation = ''GLIOMA01'', numberOfImageCollections = Some 1,
       numberOfCRDCNodes = Some 2\<rparr>
     [] [Some ''ICDC-GLIOMA01'']
     [''ICDC-GLIOMA01'' \<mapsto>
        [\<lparr>ImageCount = ''3'', PatientID = ''p1'', Modality = ''Histopathology'',
          BodyPartExamined = ''BRAIN''\<rparr>]]
   = Inr ([\<lparr>repository = TCIA, url = ''tcia/ICDC-GLIOMA01'',
             metadata = TCIAMetadata
               \<lparr>Collection = Some ''ICDC-GLIOMA01'', Aggregate_PatientID = 1,
                Aggregate_Modality = [''Histopathology'', ''Histopathology''],
                Aggregate_BodyPartExamined = [''BRAIN''],
                Aggregate_ImageCount = Num 87\<rparr>\<rparr>], [])
   \<and> \<not> distinct [''Histopathology'', ''Histopathology'']"
  by (simp add: sample_simps eval_simps)

text \<open>
  Claim C7. When its request or the parsing of its answer fails, each of
  \<^verbatim>\<open>getIdcCollections\<close>, \<^verbatim>\<open>getTciaCollections\<close> and \<^verbatim>\<open>getTciaCollectionData\<close> logs the
  error and returns the empty list, and \<^verbatim>\<open>getTciaCollectionData\<close> returns the series
  when its request succeeds. \<^verbatim>\<open>getTciaCollectionsData\<close> stores under every name what
  \<^verbatim>\<open>getTciaCollectionData\<close> returned for it (the empty list for a failed request) and
  logs the errors in the order of the names. With the backend answering,
  \<^verbatim>\<open>mapExternalDataToStudies\<close> then completes with what the fetchers returned: it logs
  what they logged, in order, and returns exactly one mapping for each study with nodes,
  with the match results of the study in the collections the fetchers returned (the
  libraries keeping their contract, every IDC collection having a description). When the
  IDC listing failed, the mapping of a study holds exactly the TCIA entries of its TCIA
  matches that have series, in the order of the matches.
\<close>

theorem fetch_failures_are_tolerated:
  "(idc_collections_endpoint w = Inl error \<longrightarrow> getIdcCollections w = ([error], []))
   \<and> (tcia_collections_endpoint w = Inl error \<longrightarrow> getTciaCollections w = ([error], []))
   \<and> (tcia_series_endpoint w (to_string collection) = Inl error \<longrightarrow>
        getTciaCollectionData w collection = ([error], []))
   \<and> (tcia_series_endpoint w (to_string collection) = Inr data \<longrightarrow>
        getTciaCollectionData w collection = ([], data))
   \<and> getTciaCollectionsData w names
       = (concat (map (\<lambda>c. fst (getTciaCollectionData w c)) names),
          (\<lambda>k. if k \<in> to_string ` set names
                then Some (snd (getTciaCollectionData w (Some k))) else None))
   \<and> (library_contract e \<and> bento_backend w = Inr (Some response)
        \<and> idc_descriptions_present w \<longrightarrow>
        (\<exists>ms cols.
           mapExternalDataToStudies e w
             = (fst (getIdcCollections w) @ fst (getTciaCollections w)
                  @ fst (getTciaCollectionsData w (snd (getTciaCollections w))),
                ReturnedMappings ms cols)
         \<and> list_all2
             (is_study_mapping e (snd (getIdcCollections w)) (snd (getTciaCollections w))
                (snd (getTciaCollectionsData w (snd (getTciaCollections w)))))
             (filter (\<lambda>s. greater_than_zero (numberOfCRDCNodes s)) (studies_of response)) ms
         \<and> map collection_id cols = map collection_id (snd (getIdcCollections w))))
   \<and> (library_contract e \<and> bento_backend w = Inr (Some response)
        \<and> idc_collections_endpoint w = Inl error \<longrightarrow>
        (\<exists>ms.
           mapExternalDataToStudies e w
             = (error # fst (getTciaCollections w)
                  @ fst (getTciaCollectionsData w (snd (getTciaCollections w))),
                ReturnedMappings ms [])
         \<and> list_all2
             (\<lambda>s m. mapping_clinical_study_designation m = clinical_study_designation s
                  \<and> mapping_numberOfCRDCNodes m = numberOfCRDCNodes s
                  \<and> mapping_numberOfImageCollections m = numberOfImageCollections s
                  \<and> (\<exists>tciaMatches.
                        search e (clinical_study_designation s) (snd (getTciaCollections w))
                          = Inr tciaMatches
                      \<and> list_all2
                          (is_tcia_entry e
                             (snd (getTciaCollectionsData w (snd (getTciaCollections w)))) s)
                          (filter
                             (has_series
                                (snd (getTciaCollectionsData w (snd (getTciaCollections w)))))
                             tciaMatches)
                          (CRDCLinks m)))
             (filter (\<lambda>s. greater_than_zero (numberOfCRDCNodes s)) (studies_of response)) ms))"
proof (intro conjI impI)
  assume "idc_collections_endpoint w = Inl error"
  then show "getIdcCollections w = ([error], [])" by (simp add: getIdcCollections_def)
next
  assume "tcia_collections_endpoint w = Inl error"
  then show "getTciaCollections w = ([error], [])" by (simp add: getTciaCollections_def)
next
  assume "tcia_series_endpoint w (to_string collection) = Inl error"
  then show "getTciaCollectionData w collection = ([error], [])"
    by (simp add: getTciaCollectionData_def)
next
  assume "tcia_series_endpoint w (to_string collection) = Inr data"
  then show "getTciaCollectionData w collection = ([], data)"
    by (simp add: getTciaCollectionData_def)
next
  show "getTciaCollectionsData w names
       = (concat (map (\<lambda>c. fst (getTciaCollectionData w c)) names),
          (\<lambda>k. if k \<in> to_string ` set names
                then Some (snd (getTciaCollectionData w (Some k))) else None))"
    by (rule getTciaCollectionsData_eq)
next
  assume "library_contract e \<and> bento_backend w = Inr (Some response)
            \<and> idc_descriptions_present w"
  then show "\<exists>ms cols.
           mapExternalDataToStudies e w
             = (fst (getIdcCollections w) @ fst (getTciaCollections w)
                  @ fst (getTciaCollectionsData w (snd (getTciaCollections w))),
                ReturnedMappings ms cols)
         \<and> list_all2
             (is_study_mapping e (snd (getIdcCollections w)) (snd (getTciaCollections w))
                (snd (getTciaCollectionsData w (snd (getTciaCollections w)))))
             (filter (\<lambda>s. greater_than_zero (numberOfCRDCNodes s)) (studies_of response)) ms
         \<and> map collection_id cols = map collection_id (snd (getIdcCollections w))"
    using mapExternalDataToStudies_mappings [of e w response] by blast
next
  assume "library_contract e \<and> bento_backend w = Inr (Some response)
            \<and> idc_collections_endpoint w = Inl error"
  then have "library_contract e" and "bento_backend w = Inr (Some response)"
    and "idc_collections_endpoint w = Inl error" by simp_all
  then show "\<exists>ms.
           mapExternalDataToStudies e w
             = (error # fst (getTciaCollections w)
                  @ fst (getTciaCollectionsData w (snd (getTciaCollections w))),
                ReturnedMappings ms [])
         \<and> list_all2
             (\<lambda>s m. mapping_clinical_study_designation m = clinical_study_designation s
                  \<and> mapping_numberOfCRDCNodes m = numberOfCRDCNodes s
                  \<and> mapping_numberOfImageCollections m = numberOfImageCollections s
                  \<and> (\<exists>tciaMatches.
                        search e (clinical_study_designation s) (snd (getTciaCollections w))
                          = Inr tciaMatches
                      \<and> list_all2
                          (is_tcia_entry e
                             (snd (getTciaCollectionsData w (snd (getTciaCollections w)))) s)
                          (filter
                             (has_series
                                (snd (getTciaCollectionsData w (snd (getTciaCollections w)))))
                             tciaMatches)
                          (CRDCLinks m)))
             (filter (\<lambda>s. greater_than_zero (numberOfCRDCNodes s)) (studies_of response)) ms"
    by (rule mapExternalDataToStudies_without_idc)
qed

text \<open>
  The sample world with a failing IDC listing (and the failing series request it already
  has): both errors are logged, and the study with nodes is returned with the one TCIA
  entry of its matches that has series. The sample world with a failing TCIA listing: the
  study is returned with its IDC entry only.
\<close>

theorem fetch_failures_are_tolerated_witness:
  "library_contract sample_env
   \<and> bento_backend (sample_world\<lparr>idc_collections_endpoint := Inl SyntaxError\<rparr>)
       = Inr (Some \<lparr>response_data = Some \<lparr>studiesByProgram = Some sample_studies\<rparr>\<rparr>)
   \<and> idc_collections_endpoint (sample_world\<lparr>idc_collections_endpoint := Inl SyntaxError\<rparr>)
       = Inl SyntaxError
   \<and> getIdcCollections (sample_world\<lparr>idc_collections_endpoint := Inl SyntaxError\<rparr>)
       = ([SyntaxError], [])
   \<and> tcia_series_endpoint (sample_world\<lparr>idc_collections_endpoint := Inl SyntaxError\<rparr>)
        (to_string (Some ''ICDC-COTC007B-3'')) = Inl FetchError
   \<and> getTciaCollectionData (sample_world\<lparr>idc_collections_endpoint := Inl SyntaxError\<rparr>)
        (Some ''ICDC-COTC007B-3'') = ([FetchError], [])
   \<and> getTciaCollectionsData (sample_world\<lparr>idc_collections_endpoint := Inl SyntaxError\<rparr>)
        [Some ''ICDC-COTC007B'', Some ''ICDC-COTC007B-3'']
       = ([FetchError], [''ICDC-COTC007B'' \<mapsto> sample_series, ''ICDC-COTC007B-3'' \<mapsto> []])
   \<and> mapExternalDataToStudies sample_env
        (sample_world\<lparr>idc_collections_endpoint := Inl SyntaxError\<rparr>)
       = ([SyntaxError, FetchError],
          ReturnedMappings
            [\<lparr>CRDCLinks =
                [\<lparr>repository = TCIA, url = ''tcia/ICDC-COTC007B'',
                  metadata = TCIAMetadata
                    \<lparr>Collection = Some ''ICDC-COTC007B'', Aggregate_PatientID = 2,
                     Aggregate_Modality = [''MR''],
                     Aggregate_BodyPartExamined = [''HEAD'', ''LEG''],
                     Aggregate_ImageCount = Num 15\<rparr>\<rparr>],
              mapping_numberOfCRDCNodes = Some 3,
              mapping_numberOfImageCollections = Some 2,
              mapping_clinical_study_designation = ''COTC007B''\<rparr>]
            [])
   \<and> bento_backend (sample_world\<lparr>tcia_collections_endpoint := Inl FetchError\<rparr>)
       = Inr (Some \<lparr>response_data = Some \<lparr>studiesByProgram = Some sample_studies\<rparr>\<rparr>)
   \<and> idc_descriptions_present (sample_world\<lparr>tcia_collections_endpoint := Inl FetchError\<rparr>)
   \<and> tcia_collections_endpoint (sample_world\<lparr>tcia_collections_endpoint := Inl FetchError\<rparr>)
       = Inl FetchError
   \<and> getTciaCollections (sample_world\<lparr>tcia_collections_endpoint := Inl FetchError\<rparr>)
       = ([FetchError], [])
   \<and> tcia_series_endpoint (sample_world\<lparr>tcia_collections_endpoint := Inl FetchError\<rparr>)
        (to_string (Some ''ICDC-COTC007B'')) = Inr sample_series
   \<and> getTciaCollectionData (sample_world\<lparr>tcia_collections_endpoint := Inl FetchError\<rparr>)
        (Some ''ICDC-COTC007B'') = ([], sample_series)
   \<and> mapExternalDataToStudies sample_env
        (sample_world\<lparr>tcia_collections_endpoint := Inl FetchError\<rparr>)
       = ([FetchError],
          ReturnedMappings
            [\<lparr>CRDCLinks =
                [\<lparr>repository = IDC, url = ''idc/icdc_COTC007B'', metadata = IDCMetadata 0\<rparr>],
              mapping_numberOfCRDCNodes = Some 3,
              mapping_numberOfImageCollections = Some 2,
              mapping_clinical_study_designation = ''COTC007B''\<rparr>]
            [\<lparr>collection_id = Some ''icdc_COTC007B'', description = Some ''a & b''\<rparr>,
             \<lparr>collection_id = Some ''icdc_GLIOMA01'', description = Some ''c''\<rparr>])"
proof -
  let ?w = "sample_world\<lparr>idc_collections_endpoint := Inl SyntaxError\<rparr>"
  let ?v = "sample_world\<lparr>tcia_collections_endpoint := Inl FetchError\<rparr>"
  let ?r = "\<lparr>response_data = Some \<lparr>studiesByProgram = Some sample_studies\<rparr>\<rparr>"
  note t = fetch_failures_are_tolerated
             [of ?w SyntaxError "Some ''ICDC-COTC007B-3''" "[]"
                 "[Some ''ICDC-COTC007B'', Some ''ICDC-COTC007B-3'']" sample_env ?r]
  note s = fetch_failures_are_tolerated
             [of ?w FetchError "Some ''ICDC-COTC007B-3''" "[]" "[]" sample_env ?r]
  note u = fetch_failures_are_tolerated
             [of ?v FetchError "Some ''ICDC-COTC007B''" sample_series "[]" sample_env ?r]
  have b: "bento_backend ?w = Inr (Some ?r)" by (simp add: sample_world_def)
  have i: "idc_collections_endpoint ?w = Inl SyntaxError" by simp
  have f: "tcia_series_endpoint ?w (to_string (Some ''ICDC-COTC007B-3'')) = Inl FetchError"
    by (simp add: sample_world_def sample_series_endpoint_def)
  from mp [OF t [THEN conjunct1] i]
  have g1: "getIdcCollections ?w = ([SyntaxError], [])" .
  from mp [OF s [THEN conjunct2, THEN conjunct2, THEN conjunct1] f]
  have g2: "getTciaCollectionData ?w (Some ''ICDC-COTC007B-3'') = ([FetchError], [])" .
  from t [THEN conjunct2, THEN conjunct2, THEN conjunct2, THEN conjunct2, THEN conjunct1]
  have "getTciaCollectionsData ?w [Some ''ICDC-COTC007B'', Some ''ICDC-COTC007B-3'']
       = (concat (map (\<lambda>c. fst (getTciaCollectionData ?w c))
                    [Some ''ICDC-COTC007B'', Some ''ICDC-COTC007B-3'']),
          (\<lambda>k. if k \<in> to_string ` set [Some ''ICDC-COTC007B'', Some ''ICDC-COTC007B-3'']
                then Some (snd (getTciaCollectionData ?w (Some k))) else None))" .
  then have g3: "getTciaCollectionsData ?w [Some ''ICDC-COTC007B'', Some ''ICDC-COTC007B-3'']
       = ([FetchError], [''ICDC-COTC007B'' \<mapsto> sample_series, ''ICDC-COTC007B-3'' \<mapsto> []])"
    by (auto simp: getTciaCollectionData_def sample_world_def sample_series_endpoint_def
          fun_eq_iff)
  from library_contract_sample_env b i
  have "library_contract sample_env \<and> bento_backend ?w = Inr (Some ?r)
          \<and> idc_collections_endpoint ?w = Inl SyntaxError"
    by (intro conjI)
  from mp [OF t [THEN conjunct2, THEN conjunct2, THEN conjunct2, THEN conjunct2, THEN conjunct2, THEN conjunct2] this] obtain ms where
    "mapExternalDataToStudies sample_env ?w
       = (SyntaxError # fst (getTciaCollections ?w)
            @ fst (getTciaCollectionsData ?w (snd (getTciaCollections ?w))),
          ReturnedMappings ms [])"
    by blast
  with sample_without_idc have m: "mapExternalDataToStudies sample_env ?w
       = ([SyntaxError, FetchError],
          ReturnedMappings
            [\<lparr>CRDCLinks =
                [\<lparr>repository = TCIA, url = ''tcia/ICDC-COTC007B'',
                  metadata = TCIAMetadata
                    \<lparr>Collection = Some ''ICDC-COTC007B'', Aggregate_PatientID = 2,
                     Aggregate_Modality = [''MR''],
                     Aggregate_BodyPartExamined = [''HEAD'', ''LEG''],
                     Aggregate_ImageCount = Num 15\<rparr>\<rparr>],
              mapping_numberOfCRDCNodes = Some 3,
              mapping_numberOfImageCollections = Some 2,
              mapping_clinical_study_designation = ''COTC007B''\<rparr>]
            [])"
    by simp
  have b': "bento_backend ?v = Inr (Some ?r)" by (simp add: sample_world_def)
  have l: "tcia_collections_endpoint ?v = Inl FetchError" by simp
  have d: "idc_descriptions_present ?v"
    using sample_idc_descriptions_present by (simp add: idc_descriptions_present_def)
  have f': "tcia_series_endpoint ?v (to_string (Some ''ICDC-COTC007B'')) = Inr sample_series"
    by (simp add: sample_world_def sample_series_endpoint_def)
  from mp [OF u [THEN conjunct2, THEN conjunct1] l]
  have g4: "getTciaCollections ?v = ([FetchError], [])" .
  from mp [OF u [THEN conjunct2, THEN conjunct2, THEN conjunct2, THEN conjunct1] f']
  have g5: "getTciaCollectionData ?v (Some ''ICDC-COTC007B'') = ([], sample_series)" .
  from library_contract_sample_env b' d
  have "library_contract sample_env \<and> bento_backend ?v = Inr (Some ?r)
          \<and> idc_descriptions_present ?v"
    by (intro conjI)
  from mp [OF u [THEN conjunct2, THEN conjunct2, THEN conjunct2, THEN conjunct2, THEN conjunct2, THEN conjunct1] this] obtain ms' cols' where
    "mapExternalDataToStudies sample_env ?v
       = (fst (getIdcCollections ?v) @ fst (getTciaCollections ?v)
            @ fst (getTciaCollectionsData ?v (snd (getTciaCollections ?v))),
          ReturnedMappings ms' cols')"
    by blast
  with sample_without_tcia have m': "mapExternalDataToStudies sample_env ?v
       = ([FetchError],
          ReturnedMappings
            [\<lparr>CRDCLinks =
                [\<lparr>repository = IDC, url = ''idc/icdc_COTC007B'', metadata = IDCMetadata 0\<rparr>],
              mapping_numberOfCRDCNodes = Some 3,
              mapping_numberOfImageCollections = Some 2,
              mapping_clinical_study_designation = ''COTC007B''\<rparr>]
            [\<lparr>collection_id = Some ''icdc_COTC007B'', description = Some ''a & b''\<rparr>,
             \<lparr>collection_id = Some ''icdc_GLIOMA01'', description = Some ''c''\<rparr>])"
    by simp
  from library_contract_sample_env b i g1 f g2 g3 m b' d l g4 f' g5 m' show ?thesis
    by (intro conjI)
qed

text \<open>
  Claim C8, as amended. When the answer of the backend parses to a value other than
  \<^verbatim>\<open>null\<close> that has no \<^verbatim>\<open>data\<close> or no \<^verbatim>\<open>data.studiesByProgram\<close>,
  \<^verbatim>\<open>getIcdcStudyData\<close> returns \<^verbatim>\<open>undefined\<close> and logs nothing; \<^verbatim>\<open>collectMappings\<close> on
  \<^verbatim>\<open>undefined\<close> returns the empty list and leaves the collections as they are; and
  \<^verbatim>\<open>mapExternalDataToStudies\<close> logs what the three fetchers logged and returns the empty
  list of mappings, whatever the other services answer and whatever the libraries do.
\<close>

theorem undefined_studies_are_tolerated:
  "bento_backend w = Inr (Some response)
   \<and> (case response_data response of None \<Rightarrow> True | Some d \<Rightarrow> studiesByProgram d = None) \<longrightarrow>
     getIcdcStudyData e w = ([], Inr None)
   \<and> collectMappings e None idcCollections tciaCollections tciaCollectionsData
       = Inr ([], idcCollections)
   \<and> mapExternalDataToStudies e w
       = (fst (getIdcCollections w) @ fst (getTciaCollections w)
            @ fst (getTciaCollectionsData w (snd (getTciaCollections w))),
          ReturnedMappings [] (snd (getIdcCollections w)))"
  by (auto simp: getIcdcStudyData_def collectMappings_def mapExternalDataToStudies_def
      split: option.splits prod.splits)

text \<open>
  The sample world with an answer of the backend without \<^verbatim>\<open>data\<close>, and with one whose
  \<^verbatim>\<open>data\<close> has no \<^verbatim>\<open>studiesByProgram\<close>: the error of the failing series request is
  logged and the list of mappings is empty.
\<close>

theorem undefined_studies_are_tolerated_witness:
  "bento_backend (sample_world\<lparr>bento_backend := Inr (Some \<lparr>response_data = None\<rparr>)\<rparr>)
     = Inr (Some \<lparr>response_data = None\<rparr>)
   \<and> getIcdcStudyData sample_env
        (sample_world\<lparr>bento_backend := Inr (Some \<lparr>response_data = None\<rparr>)\<rparr>)
       = ([], Inr None)
   \<and> mapExternalDataToStudies sample_env
        (sample_world\<lparr>bento_backend := Inr (Some \<lparr>response_data = None\<rparr>)\<rparr>)
       = ([FetchError], ReturnedMappings [] sample_idcCollections)
   \<and> bento_backend
        (sample_world\<lparr>bento_backend :=
           Inr (Some \<lparr>response_data = Some \<lparr>studiesByProgram = None\<rparr>\<rparr>)\<rparr>)
     = Inr (Some \<lparr>response_data = Some \<lparr>studiesByProgram = None\<rparr>\<rparr>)
   \<and> getIcdcStudyData sample_env
        (sample_world\<lparr>bento_backend :=
           Inr (Some \<lparr>response_data = Some \<lparr>studiesByProgram = None\<rparr>\<rparr>)\<rparr>)
       = ([], Inr None)
   \<and> mapExternalDataToStudies sample_env
        (sample_world\<lparr>bento_backend :=
           Inr (Some \<lparr>response_data = Some \<lparr>studiesByProgram = None\<rparr>\<rparr>)\<rparr>)
       = ([FetchError], ReturnedMappings [] sample_idcCollections)"
proof -
  let ?w1 = "sample_world\<lparr>bento_backend := Inr (Some \<lparr>response_data = None\<rparr>)\<rparr>"
  let ?w2 = "sample_world\<lparr>bento_backend :=
               Inr (Some \<lparr>response_data = Some \<lparr>studiesByProgram = None\<rparr>\<rparr>)\<rparr>"
  have c: "getIdcCollections (sample_world\<lparr>bento_backend := b\<rparr>) = ([], sample_idcCollections)"
    for b
    by (simp add: sample_world_def getIdcCollections_def sample_idcCollections_def)
  have n: "getTciaCollections (sample_world\<lparr>bento_backend := b\<rparr>) = ([], sample_tciaCollections)"
    for b
    by (simp add: sample_world_def getTciaCollections_def sample_tciaCollections_def)
  have d: "fst (getTciaCollectionsData (sample_world\<lparr>bento_backend := b\<rparr>) sample_tciaCollections)
             = [FetchError]" for b
    by (simp add: sample_world_def getTciaCollectionsData_def getTciaCollectionData_def
          sample_tciaCollections_def sample_series_endpoint_def)
  from undefined_studies_are_tolerated [of ?w1 "\<lparr>response_data = None\<rparr>" sample_env]
       undefined_studies_are_tolerated
         [of ?w2 "\<lparr>response_data = Some \<lparr>studiesByProgram = None\<rparr>\<rparr>" sample_env]
  show ?thesis by (simp add: c n d)
qed

text \<open>
  Claim C8 as it is worded fails for an answer whose body is the JSON value \<^verbatim>\<open>null\<close>: it
  parses and has no \<^verbatim>\<open>data.studiesByProgram\<close>, but the read \<^verbatim>\<open>data.data\<close> throws a
  \<^verbatim>\<open>TypeError\<close> inside the \<^verbatim>\<open>try\<close>, so \<^verbatim>\<open>getIcdcStudyData\<close> logs it and throws the error
  of a backend that is not connected, and \<^verbatim>\<open>mapExternalDataToStudies\<close> returns that error
  and no list of mappings.
\<close>

theorem undefined_studies_are_tolerated_counterexample:
  "getIcdcStudyData sample_env (sample_world\<lparr>bento_backend := Inr None\<rparr>)
     = ([TypeError], Inl (Error ''BENTO_BACKEND_NOT_CONNECTED''))
   \<and> mapExternalDataToStudies sample_env (sample_world\<lparr>bento_backend := Inr None\<rparr>)
       = ([TypeError, Error ''BENTO_BACKEND_NOT_CONNECTED''],
          ReturnedError (Error ''BENTO_BACKEND_NOT_CONNECTED''))"
  by (simp add: getIcdcStudyData_def mapExternalDataToStudies_def sample_env_def)

text \<open>
  Claim C9, as amended. For a study other than GLIOMA01 the description of the collection
  found becomes exactly what \<^verbatim>\<open>htmlToText\<close> returns for the raw description. A second
  normalization (of the same collection, now holding the converted text) applies
  \<^verbatim>\<open>htmlToText\<close> to the converted text; the description stays the same string exactly
  when \<^verbatim>\<open>htmlToText\<close> returns the converted text unchanged.
\<close>

theorem description_is_converted:
  assumes "clinical_study_designation icdcStudy \<noteq> ''GLIOMA01''"
      and "find_first (\<lambda>obj. collection_id obj = collectionId) idcCollections = Some (i, obj)"
      and "htmlToText e (description obj) = Inr text"
  shows "getIdcCollectionMetadata e collectionId idcCollections icdcStudy
           = Inr (i, idcCollections[i := obj\<lparr>description := Some text\<rparr>])
       \<and> getIdcCollectionMetadata e collectionId
             (idcCollections[i := obj\<lparr>description := Some text\<rparr>]) icdcStudy
           = (case htmlToText e (Some text) of
                Inl error \<Rightarrow> Inl error
              | Inr text' \<Rightarrow> Inr (i, idcCollections[i := obj\<lparr>description := Some text'\<rparr>]))
       \<and> (getIdcCollectionMetadata e collectionId
             (idcCollections[i := obj\<lparr>description := Some text\<rparr>]) icdcStudy
           = Inr (i, idcCollections[i := obj\<lparr>description := Some text\<rparr>])
          \<longleftrightarrow> htmlToText e (Some text) = Inr text)"
proof -
  from find_first_Some [OF assms(2)] have i: "i < length idcCollections" by simp
  have 1: "getIdcCollectionMetadata e collectionId idcCollections icdcStudy
             = Inr (i, idcCollections[i := obj\<lparr>description := Some text\<rparr>])"
    using assms by (simp add: getIdcCollectionMetadata_def)
  have 2: "getIdcCollectionMetadata e collectionId
             (idcCollections[i := obj\<lparr>description := Some text\<rparr>]) icdcStudy
           = (case htmlToText e (Some text) of
                Inl error \<Rightarrow> Inl error
              | Inr text' \<Rightarrow> Inr (i, idcCollections[i := obj\<lparr>description := Some text'\<rparr>]))"
    using assms(1) find_first_update [OF assms(2), of "Some text"]
    by (simp add: getIdcCollectionMetadata_def split: sum.splits)
  have 3: "(idcCollections[i := obj\<lparr>description := Some t\<rparr>]
             = idcCollections[i := obj\<lparr>description := Some text\<rparr>]) \<longleftrightarrow> t = text" for t
  proof
    assume "idcCollections[i := obj\<lparr>description := Some t\<rparr>]
              = idcCollections[i := obj\<lparr>description := Some text\<rparr>]"
    then have "idcCollections[i := obj\<lparr>description := Some t\<rparr>] ! i
              = idcCollections[i := obj\<lparr>description := Some text\<rparr>] ! i" by simp
    with i have "obj\<lparr>description := Some t\<rparr> = obj\<lparr>description := Some text\<rparr>" by simp
    then have "description (obj\<lparr>description := Some t\<rparr>)
                 = description (obj\<lparr>description := Some text\<rparr>)" by simp
    then show "t = text" by simp
  qed simp
  show ?thesis
    unfolding 2 using 1 3 by (auto split: sum.splits)
qed

theorem description_is_converted_witness:
  "clinical_study_designation sample_study \<noteq> ''GLIOMA01''
   \<and> find_first (\<lambda>obj. collection_id obj = Some ''icdc_COTC007B'') sample_idcCollections
       = Some (0, \<lparr>collection_id = Some ''icdc_COTC007B'', description = Some ''a &amp;amp; b''\<rparr>)
   \<and> htmlToText sample_env (Some ''a &amp;amp; b'') = Inr ''a &amp; b''
   \<and> getIdcCollectionMetadata sample_env (Some ''icdc_COTC007B'') sample_idcCollections
        sample_study
       = Inr (0, [\<lparr>collection_id = Some ''icdc_COTC007B'', description = Some ''a &amp; b''\<rparr>,
                  \<lparr>collection_id = Some ''icdc_GLIOMA01'', description = Some ''c''\<rparr>])
   \<and> getIdcCollectionMetadata sample_env (Some ''icdc_COTC007B'')
        [\<lparr>collection_id = Some ''icdc_COTC007B'', description = Some ''a &amp; b''\<rparr>,
         \<lparr>collection_id = Some ''icdc_GLIOMA01'', description = Some ''c''\<rparr>]
        sample_study
       = Inr (0, [\<lparr>collection_id = Some ''icdc_COTC007B'', description = Some ''a & b''\<rparr>,
                  \<lparr>collection_id = Some ''icdc_GLIOMA01'', description = Some ''c''\<rparr>])"
proof -
  let ?o = "\<lparr>collection_id = Some ''icdc_COTC007B'', description = Some ''a &amp;amp; b''\<rparr>"
  have a: "clinical_study_designation sample_study \<noteq> ''GLIOMA01''"
    by (simp add: sample_study_def)
  have f: "find_first (\<lambda>obj. collection_id obj = Some ''icdc_COTC007B'') sample_idcCollections
             = Some (0, ?o)"
    by (simp add: sample_idcCollections_def)
  have h: "htmlToText sample_env (description ?o) = Inr ''a &amp; b''"
    by (simp add: sample_env_def sample_htmlToText_def)
  have h2: "htmlToText sample_env (Some ''a &amp; b'') = Inr ''a & b''"
    by (simp add: sample_env_def sample_htmlToText_def)
  have u: "sample_idcCollections
               [0 := \<lparr>collection_id = Some ''icdc_COTC007B'', description = Some t\<rparr>]
             = [\<lparr>collection_id = Some ''icdc_COTC007B'', description = Some t\<rparr>,
                \<lparr>collection_id = Some ''icdc_GLIOMA01'', description = Some ''c''\<rparr>]" for t
    by (simp add: sample_idcCollections_def)
  from description_is_converted [OF a f h] a f h show ?thesis by (simp add: u h2)
qed

text \<open>
  The claim as stated fails where the conversion changes its own output. With the sample
  \<^verbatim>\<open>htmlToText\<close>, which decodes the character reference \<^verbatim>\<open>&amp;\<close> as html-to-text
  does, the raw description \<^verbatim>\<open>a &amp;amp; b\<close> of a collection becomes
  \<^verbatim>\<open>a &amp; b\<close>, and normalizing that again gives \<^verbatim>\<open>a & b\<close>.
\<close>

theorem description_is_converted_counterexample:
  "getIdcCollectionMetadata sample_env (Some ''icdc_COTC007B'')
     [\<lparr>collection_id = Some ''icdc_COTC007B'', description = Some ''a &amp;amp; b''\<rparr>]
     sample_study
   = Inr (0, [\<lparr>collection_id = Some ''icdc_COTC007B'', description = Some ''a &amp; b''\<rparr>])
   \<and> getIdcCollectionMetadata sample_env (Some ''icdc_COTC007B'')
     [\<lparr>collection_id = Some ''icdc_COTC007B'', description = Some ''a &amp; b''\<rparr>]
     sample_study
   = Inr (0, [\<lparr>collection_id = Some ''icdc_COTC007B'', description = Some ''a & b''\<rparr>])
   \<and> ''a &amp; b'' \<noteq> ''a & b''"
  by (simp add: sample_simps getIdcCollectionMetadata_def)

text \<open>
  Claim C10. When one record of a listing lacks the property that is filtered on
  (\<^verbatim>\<open>collection_id\<close> for IDC, \<^verbatim>\<open>Collection\<close> for TCIA), the filter throws a
  TypeError inside the \<^verbatim>\<open>try\<close> of the fetcher, which logs it and returns the empty
  list: the well-formed records of the listing are lost too, and the value returned is
  the one a failed request gives.
\<close>

theorem one_malformed_record_empties_the_listing:
  "(idc_collections_endpoint w = Inr response \<and> collections response = Some array
      \<and> (\<exists>obj\<in>set array. collection_id obj = None) \<longrightarrow>
      getIdcCollections w = ([TypeError], []))
   \<and> (tcia_collections_endpoint w = Inr listing
      \<and> (\<exists>obj\<in>set listing. listing_Collection obj = None) \<longrightarrow>
      getTciaCollections w = ([TypeError], []))
   \<and> (idc_collections_endpoint w' = Inl error \<longrightarrow> snd (getIdcCollections w') = [])
   \<and> (tcia_collections_endpoint w' = Inl error \<longrightarrow> snd (getTciaCollections w') = [])"
  by (auto simp: getIdcCollections_def getTciaCollections_def filterObjectArray_eq)

text \<open>
  The sample listings, each with one more record that lacks the property: nothing is
  returned, although without that record two IDC collections and four TCIA names are.
\<close>

theorem one_malformed_record_empties_the_listing_witness:
  "getIdcCollections sample_world = ([], sample_idcCollections)
   \<and> getIdcCollections
       (sample_world\<lparr>idc_collections_endpoint :=
          Inr \<lparr>collections =
                 Some (sample_idcCollections
                       @ [\<lparr>collection_id = None, description = Some ''d''\<rparr>])\<rparr>\<rparr>)
     = ([TypeError], [])
   \<and> getTciaCollections sample_world = ([], sample_tciaCollections)
   \<and> getTciaCollections
       (sample_world\<lparr>tcia_collections_endpoint :=
          Inr (map (\<lambda>name. \<lparr>listing_Collection = name\<rparr>) sample_tciaCollections
               @ [\<lparr>listing_Collection = None\<rparr>])\<rparr>)
     = ([TypeError], [])
   \<and> snd (getIdcCollections (sample_world\<lparr>idc_collections_endpoint := Inl FetchError\<rparr>)) = []
   \<and> snd (getTciaCollections (sample_world\<lparr>tcia_collections_endpoint := Inl FetchError\<rparr>)) = []"
proof -
  let ?a = "sample_idcCollections @ [\<lparr>collection_id = None, description = Some ''d''\<rparr>]"
  let ?l = "map (\<lambda>name. \<lparr>listing_Collection = name\<rparr>) sample_tciaCollections
              @ [\<lparr>listing_Collection = None\<rparr>]"
  have 1: "getIdcCollections sample_world = ([], sample_idcCollections)"
    by (simp add: sample_world_def getIdcCollections_def sample_idcCollections_def)
  have 2: "getTciaCollections sample_world = ([], sample_tciaCollections)"
    by (simp add: sample_world_def getTciaCollections_def sample_tciaCollections_def)
  have 3: "getIdcCollections (sample_world\<lparr>idc_collections_endpoint := Inr \<lparr>collections = Some ?a\<rparr>\<rparr>)
             = ([TypeError], [])"
    using one_malformed_record_empties_the_listing
            [of "sample_world\<lparr>idc_collections_endpoint := Inr \<lparr>collections = Some ?a\<rparr>\<rparr>"
                "\<lparr>collections = Some ?a\<rparr>" ?a]
    by simp
  have 4: "getTciaCollections (sample_world\<lparr>tcia_collections_endpoint := Inr ?l\<rparr>)
             = ([TypeError], [])"
    using one_malformed_record_empties_the_listing
            [of "sample_world\<lparr>tcia_collections_endpoint := Inr ?l\<rparr>" _ _ ?l]
    by simp
  have 5: "snd (getIdcCollections (sample_world\<lparr>idc_collections_endpoint := Inl FetchError\<rparr>)) = []"
    using one_malformed_record_empties_the_listing
            [of _ _ _ _ "sample_world\<lparr>idc_collections_endpoint := Inl FetchError\<rparr>" FetchError]
    by simp
  have 6: "snd (getTciaCollections (sample_world\<lparr>tcia_collections_endpoint := Inl FetchError\<rparr>)) = []"
    using one_malformed_record_empties_the_listing
            [of _ _ _ _ "sample_world\<lparr>tcia_collections_endpoint := Inl FetchError\<rparr>" FetchError]
    by simp
  from 1 2 3 4 5 6 show ?thesis by (intro conjI)
qed

end
